theory Spec2Isabelle
  imports Complex_Main "HOL-Library.Signed_Division"
begin

section \<open>Time and errors\<close>

text \<open>
  Go's \<^verbatim>\<open>time.Duration\<close> is a signed 64-bit count of nanoseconds: an integer here, with the
  wrap-around of its subtraction written out. An instant (\<^verbatim>\<open>time.Time\<close>) is the count of
  nanoseconds since some origin.
\<close>

type_synonym time = int
type_synonym duration = int

definition Second :: duration where
  "Second = 1000000000"

definition Minute :: duration where
  "Minute = 60 * Second"

definition maxDuration :: duration where
  "maxDuration = 2 ^ 63 - 1"

definition minDuration :: duration where
  "minDuration = - (2 ^ 63)"

text \<open>
  \<^verbatim>\<open>t.Sub(u)\<close> returns the difference, or the smallest or largest duration when the
  difference does not fit; \<^verbatim>\<open>time.Since(t)\<close> is \<^verbatim>\<open>time.Now().Sub(t)\<close>, with the wall clock
  passed in.
\<close>

definition Time_Sub :: "time \<Rightarrow> time \<Rightarrow> duration" where
  "Time_Sub t u =
     (let d = t - u
      in if d < minDuration then minDuration else if maxDuration < d then maxDuration else d)"

definition time_Since :: "time \<Rightarrow> time \<Rightarrow> duration" where
  "time_Since now t = Time_Sub now t"


text \<open>
  The sentinel errors of package \<^verbatim>\<open>database\<close> (and \<^verbatim>\<open>sql.ErrNoRows\<close>). Each is one
  allocated value; \<^verbatim>\<open>errors.Is\<close> finds it by identity.
\<close>

datatype sentinel = ErrSeatNotAvailable | ErrSeatNotExist | ErrOrderNotFound | sql_ErrNoRows

text \<open>The points at which the database driver itself can fail.\<close>

datatype db_step =
    BeginTx | LockQuery | ScanRow | OrderLookup | ReleaseExec | ReserveExec | CommitTx
  | StatusExec | RowsAffected | ConfirmExec | OrderQuery | SeatsQuery

text \<open>
  Go error values. \<open>errors_New\<close> and \<open>Errorf\<close> are freshly allocated errors (a message
  only), \<open>Errorf_w p e\<close> is \<^verbatim>\<open>fmt.Errorf("p: %w", e)\<close>, \<open>driver_error\<close> is whatever the
  driver returned at a step, \<open>runtime_panic\<close> a Go run-time panic, and
  \<open>NonRetryableApplicationError msg typ cause\<close> is the workflow SDK's
  \<^verbatim>\<open>temporal.NewNonRetryableApplicationError\<close>.
\<close>

datatype go_error =
    Sentinel sentinel
  | errors_New string
  | Errorf string
  | Errorf_w string go_error
  | driver_error db_step
  | runtime_panic string
  | NonRetryableApplicationError string string go_error

fun sentinel_msg :: "sentinel \<Rightarrow> string" where
  "sentinel_msg ErrSeatNotAvailable = ''seat not available''"
| "sentinel_msg ErrSeatNotExist = ''seat does not exist''"
| "sentinel_msg ErrOrderNotFound = ''order not found''"
| "sentinel_msg sql_ErrNoRows = ''sql: no rows in result set''"

text \<open>\<^verbatim>\<open>err.Error()\<close>.\<close>

fun Error :: "go_error \<Rightarrow> string" where
  "Error (Sentinel s) = sentinel_msg s"
| "Error (errors_New m) = m"
| "Error (Errorf m) = m"
| "Error (Errorf_w p e) = p @ '': '' @ Error e"
| "Error (driver_error s) = ''driver error''"
| "Error (runtime_panic m) = m"
| "Error (NonRetryableApplicationError m t c) = m"

text \<open>
  \<^verbatim>\<open>errors.Is(err, target)\<close> for a sentinel target: the chain of wrapped errors is
  searched for that very value. A fresh \<^verbatim>\<open>errors.New\<close> is never a sentinel, whatever its
  message.
\<close>

fun errors_Is :: "go_error \<Rightarrow> sentinel \<Rightarrow> bool" where
  "errors_Is (Sentinel s) t = (s = t)"
| "errors_Is (Errorf_w p e) t = errors_Is e t"
| "errors_Is (NonRetryableApplicationError m ty c) t = errors_Is c t"
| "errors_Is (errors_New m) t = False"
| "errors_Is (Errorf m) t = False"
| "errors_Is (driver_error s) t = False"
| "errors_Is (runtime_panic m) t = False"

section \<open>Tables\<close>

datatype seat_status = AVAILABLE | RESERVED | BOOKED

datatype order_status =
  CREATED | SEATS_RESERVED | PAYMENT_PENDING | CONFIRMED | FAILED | EXPIRED | CANCELLED

record seat_row =
  seat_id :: string
  flight_id :: string
  seat_number :: string
  status :: seat_status
  reserved_by :: "string option"
  user_id :: "string option"
  reserved_at :: "time option"

record order_row =
  order_id :: string
  order_flight_id :: string
  order_user_id :: string
  order_status :: order_status
  workflow_id :: string
  run_id :: string
  updated_at :: time

record database =
  seats :: "seat_row list"
  orders :: "order_row list"

section \<open>The database server\<close>

text \<open>
  The server as the store meets it: which calls of the driver fail, and the collation of
  the string columns. The tables of scripts/init.sql are created with
  \<^verbatim>\<open>DEFAULT CHARSET=utf8mb4\<close> and no collation of their own, so every comparison that a
  statement makes on \<open>flight_id\<close>, \<open>seat_number\<close>, \<open>reserved_by\<close> or \<open>order_id\<close> is made under
  the default collation of the character set, which does not distinguish case. A
  collation is given by the weight (the sort key) it assigns to a string: two strings are
  equal for the server when their weights are.
\<close>

record mysql =
  fails :: "db_step \<Rightarrow> bool"
  weight :: "string \<Rightarrow> string"

text \<open>\<^verbatim>\<open>column = ?\<close>, \<^verbatim>\<open>column IN (?, ...)\<close>, and \<^verbatim>\<open>column = ?\<close> on a column that may be NULL.\<close>

definition sql_eq :: "mysql \<Rightarrow> string \<Rightarrow> string \<Rightarrow> bool" where
  "sql_eq srv column v = (weight srv column = weight srv v)"

definition sql_in :: "mysql \<Rightarrow> string \<Rightarrow> string list \<Rightarrow> bool" where
  "sql_in srv column vs = list_ex (sql_eq srv column) vs"

definition sql_eq_nullable :: "mysql \<Rightarrow> string option \<Rightarrow> string \<Rightarrow> bool" where
  "sql_eq_nullable srv column v = (case column of None \<Rightarrow> False | Some c \<Rightarrow> sql_eq srv c v)"

text \<open>
  A collation that ignores the case of the ASCII letters, as the default collations of
  utf8mb4 do, and a server with it on which no call of the driver fails.
\<close>

definition to_upper :: "char \<Rightarrow> char" where
  "to_upper c =
     (case map_of (zip ''abcdefghijklmnopqrstuvwxyz'' ''ABCDEFGHIJKLMNOPQRSTUVWXYZ'') c of
        Some C \<Rightarrow> C
      | None \<Rightarrow> c)"

definition ascii_ci :: "string \<Rightarrow> string" where
  "ascii_ci s = map to_upper s"

definition server_ok :: mysql where
  "server_ok = \<lparr>fails = (\<lambda>step. False), weight = ascii_ci\<rparr>"

section \<open>Transactions\<close>

text \<open>
  \<^verbatim>\<open>db.Begin()\<close> opens a transaction; statements executed on it change its working copy
  only. \<^verbatim>\<open>tx.Commit()\<close> makes the working copy the database, the deferred
  \<^verbatim>\<open>tx.Rollback()\<close> of an early return leaves the database as it was at \<open>Begin\<close>.
\<close>

record tx =
  snapshot :: database
  working :: database

definition Begin :: "database \<Rightarrow> tx" where
  "Begin db = \<lparr>snapshot = db, working = db\<rparr>"

definition Rollback :: "tx \<Rightarrow> database" where
  "Rollback t = snapshot t"

definition Commit :: "tx \<Rightarrow> database" where
  "Commit t = working t"

text \<open>
  \<^verbatim>\<open>SELECT seat_id, seat_number, status, reserved_at FROM seats
  WHERE flight_id = ? AND seat_number IN (...) FOR UPDATE\<close>: the rows, in table order.
\<close>

definition lock_seats :: "mysql \<Rightarrow> tx \<Rightarrow> string \<Rightarrow> string list \<Rightarrow> seat_row list" where
  "lock_seats srv t flightID seatNumbers =
     filter (\<lambda>r. sql_eq srv (flight_id r) flightID \<and> sql_in srv (seat_number r) seatNumbers)
       (seats (working t))"

text \<open>
  \<^verbatim>\<open>UPDATE seats SET status = RESERVED, reserved_by = ?, user_id = ?, reserved_at = NOW()
  WHERE flight_id = ? AND seat_number IN (...)\<close>.
\<close>

definition reserve_row :: "time \<Rightarrow> string \<Rightarrow> string \<Rightarrow> seat_row \<Rightarrow> seat_row" where
  "reserve_row now orderID userID r =
     r\<lparr>status := RESERVED, reserved_by := Some orderID, user_id := Some userID,
       reserved_at := Some now\<rparr>"

definition exec_reserve ::
  "mysql \<Rightarrow> time \<Rightarrow> string \<Rightarrow> string list \<Rightarrow> string \<Rightarrow> string \<Rightarrow> tx \<Rightarrow> tx" where
  "exec_reserve srv now flightID seatNumbers orderID userID t =
     t\<lparr>working := (working t)\<lparr>seats :=
        map (\<lambda>r. if sql_eq srv (flight_id r) flightID \<and> sql_in srv (seat_number r) seatNumbers
                  then reserve_row now orderID userID r else r)
            (seats (working t))\<rparr>\<rparr>"

text \<open>
  \<^verbatim>\<open>UPDATE seats SET status = AVAILABLE, reserved_by = NULL, user_id = NULL,
  reserved_at = NULL WHERE reserved_by = ? AND seat_number IN (...)\<close>.
\<close>

definition release_row :: "seat_row \<Rightarrow> seat_row" where
  "release_row r = r\<lparr>status := AVAILABLE, reserved_by := None, user_id := None, reserved_at := None\<rparr>"

definition exec_release_old :: "mysql \<Rightarrow> string \<Rightarrow> string list \<Rightarrow> tx \<Rightarrow> tx" where
  "exec_release_old srv orderID oldSeats t =
     t\<lparr>working := (working t)\<lparr>seats :=
        map (\<lambda>r. if sql_eq_nullable srv (reserved_by r) orderID \<and>
                     sql_in srv (seat_number r) oldSeats
                  then release_row r else r)
            (seats (working t))\<rparr>\<rparr>"

section \<open>Seat store: \<^verbatim>\<open>ReserveSeats\<close>\<close>

text \<open>
  The test of one scanned row (queries.go, lines 57-63): the row passes when it is
  \<open>AVAILABLE\<close>, or \<open>RESERVED\<close> with a non-NULL \<open>reserved_at\<close> more than the hard-coded
  15 minutes in the past.
\<close>

definition row_passes :: "time \<Rightarrow> seat_row \<Rightarrow> bool" where
  "row_passes now r =
     (if status r = AVAILABLE then True
      else if status r = RESERVED \<and> reserved_at r \<noteq> None
      then (case reserved_at r of
              Some t \<Rightarrow> time_Since now t > 15 * Minute
            | None \<Rightarrow> False)
      else False)"

text \<open>
  The \<^verbatim>\<open>for rows.Next()\<close> loop of \<^verbatim>\<open>ReserveSeats\<close> and of \<^verbatim>\<open>UpdateSeats\<close>: each row is
  scanned, entered into \<open>foundSeats\<close> and tested; the first row that does not pass ends the
  call with the caller's error for that seat number.
\<close>

fun scan_rows ::
  "mysql \<Rightarrow> time \<Rightarrow> (string \<Rightarrow> go_error) \<Rightarrow> seat_row list \<Rightarrow> string set
     \<Rightarrow> go_error + string set" where
  "scan_rows srv now unavailable [] foundSeats = Inr foundSeats"
| "scan_rows srv now unavailable (r # rs) foundSeats =
     (if fails srv ScanRow then Inl (Errorf_w ''failed to scan seat'' (driver_error ScanRow))
      else if row_passes now r
      then scan_rows srv now unavailable rs (insert (seat_number r) foundSeats)
      else Inl (unavailable (seat_number r)))"

text \<open>The loop "Verify all requested seats exist", with the caller's error for a missing seat.\<close>

fun verify_exist :: "(string \<Rightarrow> go_error) \<Rightarrow> string list \<Rightarrow> string set \<Rightarrow> go_error option" where
  "verify_exist missing [] foundSeats = None"
| "verify_exist missing (seat # rest) foundSeats =
     (if seat \<notin> foundSeats then Some (missing seat)
      else verify_exist missing rest foundSeats)"

text \<open>
  The errors of \<^verbatim>\<open>ReserveSeats\<close>: \<^verbatim>\<open>fmt.Errorf("seat %s: %w", seatNumber, ErrSeatNotAvailable)\<close>
  and \<^verbatim>\<open>fmt.Errorf("seat %s: %w", seat, ErrSeatNotExist)\<close>.
\<close>

definition SeatNotAvailable :: "string \<Rightarrow> go_error" where
  "SeatNotAvailable seatNumber = Errorf_w (''seat '' @ seatNumber) (Sentinel ErrSeatNotAvailable)"

definition SeatNotExist :: "string \<Rightarrow> go_error" where
  "SeatNotExist seat = Errorf_w (''seat '' @ seat) (Sentinel ErrSeatNotExist)"

text \<open>
  \<^verbatim>\<open>func (db *DB) ReserveSeats(flightID, seats, orderID, userID) error\<close>. The result is
  the returned error (\<open>None\<close> for \<^verbatim>\<open>nil\<close>) and the database afterwards. With no seats,
  \<^verbatim>\<open>placeholders[:len(placeholders)-1]\<close> slices an empty string at -1 and panics.
\<close>

definition ReserveSeats ::
  "mysql \<Rightarrow> time \<Rightarrow> database \<Rightarrow> string \<Rightarrow> string list \<Rightarrow> string \<Rightarrow> string
     \<Rightarrow> go_error option \<times> database" where
  "ReserveSeats srv now db flightID seatNumbers orderID userID =
     (if fails srv BeginTx
      then (Some (Errorf_w ''failed to begin transaction'' (driver_error BeginTx)), db)
      else let t = Begin db in
        if seatNumbers = []
        then (Some (runtime_panic ''slice bounds out of range [:-1]''), Rollback t)
        else if fails srv LockQuery
        then (Some (Errorf_w ''failed to lock seats'' (driver_error LockQuery)), Rollback t)
        else case scan_rows srv now SeatNotAvailable
                    (lock_seats srv t flightID seatNumbers) {} of
          Inl e \<Rightarrow> (Some e, Rollback t)
        | Inr foundSeats \<Rightarrow>
            (case verify_exist SeatNotExist seatNumbers foundSeats of
               Some e \<Rightarrow> (Some e, Rollback t)
             | None \<Rightarrow>
                 if fails srv ReserveExec
                 then (Some (Errorf_w ''failed to reserve seats'' (driver_error ReserveExec)),
                       Rollback t)
                 else let t' = exec_reserve srv now flightID seatNumbers orderID userID t in
                   if fails srv CommitTx then (Some (driver_error CommitTx), Rollback t')
                   else (None, Commit t')))"

section \<open>Seat store: \<^verbatim>\<open>UpdateSeats\<close>, \<^verbatim>\<open>ReleaseSeats\<close>, \<^verbatim>\<open>ConfirmSeats\<close>\<close>

text \<open>
  The errors of \<^verbatim>\<open>UpdateSeats\<close>: \<^verbatim>\<open>fmt.Errorf("seat %s is not available", seatNumber)\<close> and
  \<^verbatim>\<open>fmt.Errorf("seat %s does not exist", seat)\<close>, which wrap no sentinel.
\<close>

definition update_not_available :: "string \<Rightarrow> go_error" where
  "update_not_available seatNumber = Errorf (''seat '' @ seatNumber @ '' is not available'')"

definition update_not_exist :: "string \<Rightarrow> go_error" where
  "update_not_exist seat = Errorf (''seat '' @ seat @ '' does not exist'')"

text \<open>\<^verbatim>\<open>return tx.Commit()\<close>, followed by the deferred rollback.\<close>

definition return_Commit :: "mysql \<Rightarrow> tx \<Rightarrow> go_error option \<times> database" where
  "return_Commit srv t =
     (if fails srv CommitTx then (Some (driver_error CommitTx), Rollback t) else (None, Commit t))"

text \<open>\<^verbatim>\<open>SELECT flight_id, user_id FROM orders WHERE order_id = ?\<close> (the key is unique).\<close>

definition select_order :: "mysql \<Rightarrow> tx \<Rightarrow> string \<Rightarrow> order_row option" where
  "select_order srv t orderID =
     find (\<lambda>ord. sql_eq srv (order_id ord) orderID) (orders (working t))"

text \<open>
  \<^verbatim>\<open>func (db *DB) UpdateSeats(orderID string, oldSeats, newSeats []string) error\<close>: the
  order's flight and user are looked up, the rows of \<open>oldSeats\<close> that the order owns are
  released (when \<open>oldSeats\<close> is not empty), and the rows of \<open>newSeats\<close> are locked, tested
  and reserved (when \<open>newSeats\<close> is not empty).
\<close>

definition UpdateSeats ::
  "mysql \<Rightarrow> time \<Rightarrow> database \<Rightarrow> string \<Rightarrow> string list \<Rightarrow> string list
     \<Rightarrow> go_error option \<times> database" where
  "UpdateSeats srv now db orderID oldSeats newSeats =
     (if fails srv BeginTx
      then (Some (Errorf_w ''failed to begin transaction'' (driver_error BeginTx)), db)
      else let t = Begin db in
        if fails srv OrderLookup
        then (Some (Errorf_w ''failed to get order info'' (driver_error OrderLookup)), Rollback t)
        else case select_order srv t orderID of
          None \<Rightarrow> (Some (Errorf_w ''failed to get order info'' (Sentinel sql_ErrNoRows)), Rollback t)
        | Some ord \<Rightarrow>
            let flightID = order_flight_id ord; userID = order_user_id ord in
            if oldSeats \<noteq> [] \<and> fails srv ReleaseExec
            then (Some (Errorf_w ''failed to release old seats'' (driver_error ReleaseExec)),
                  Rollback t)
            else let t1 = (if oldSeats \<noteq> [] then exec_release_old srv orderID oldSeats t else t) in
              if newSeats = [] then return_Commit srv t1
              else if fails srv LockQuery
              then (Some (Errorf_w ''failed to lock new seats'' (driver_error LockQuery)),
                    Rollback t1)
              else case scan_rows srv now update_not_available
                          (lock_seats srv t1 flightID newSeats) {} of
                Inl e \<Rightarrow> (Some e, Rollback t1)
              | Inr foundSeats \<Rightarrow>
                  (case verify_exist update_not_exist newSeats foundSeats of
                     Some e \<Rightarrow> (Some e, Rollback t1)
                   | None \<Rightarrow>
                       if fails srv ReserveExec
                       then (Some (Errorf_w ''failed to reserve new seats''
                                     (driver_error ReserveExec)), Rollback t1)
                       else return_Commit srv
                              (exec_reserve srv now flightID newSeats orderID userID t1)))"

text \<open>
  \<^verbatim>\<open>ReleaseSeats\<close> and \<^verbatim>\<open>ConfirmSeats\<close> are single statements outside any transaction:
  \<^verbatim>\<open>UPDATE seats SET status = AVAILABLE, reserved_by = NULL, ... WHERE reserved_by = ?\<close> and
  \<^verbatim>\<open>UPDATE seats SET status = BOOKED WHERE reserved_by = ?\<close>.
\<close>

definition ReleaseSeats :: "mysql \<Rightarrow> database \<Rightarrow> string \<Rightarrow> go_error option \<times> database" where
  "ReleaseSeats srv db orderID =
     (if fails srv ReleaseExec
      then (Some (Errorf_w ''failed to release seats'' (driver_error ReleaseExec)), db)
      else (None, db\<lparr>seats :=
              map (\<lambda>r. if sql_eq_nullable srv (reserved_by r) orderID then release_row r else r)
                  (seats db)\<rparr>))"

definition ConfirmSeats :: "mysql \<Rightarrow> database \<Rightarrow> string \<Rightarrow> go_error option \<times> database" where
  "ConfirmSeats srv db orderID =
     (if fails srv ConfirmExec
      then (Some (Errorf_w ''failed to confirm seats'' (driver_error ConfirmExec)), db)
      else (None, db\<lparr>seats :=
              map (\<lambda>r. if sql_eq_nullable srv (reserved_by r) orderID then r\<lparr>status := BOOKED\<rparr>
                        else r)
                  (seats db)\<rparr>))"

section \<open>Order store\<close>

text \<open>
  \<^verbatim>\<open>UPDATE orders SET status = ?, updated_at = NOW() WHERE order_id = ?\<close>, then
  \<^verbatim>\<open>result.RowsAffected()\<close>, which counts the rows the statement changed. With no row
  changed the function returns \<^verbatim>\<open>errors.New("order not found")\<close>, a fresh error value.
\<close>

definition set_status :: "time \<Rightarrow> order_status \<Rightarrow> order_row \<Rightarrow> order_row" where
  "set_status now st ord = ord\<lparr>order_status := st, updated_at := now\<rparr>"

definition rows_affected :: "mysql \<Rightarrow> time \<Rightarrow> database \<Rightarrow> string \<Rightarrow> order_status \<Rightarrow> nat" where
  "rows_affected srv now db orderID st =
     length (filter (\<lambda>ord. sql_eq srv (order_id ord) orderID \<and> set_status now st ord \<noteq> ord)
               (orders db))"

definition UpdateOrderStatus ::
  "mysql \<Rightarrow> time \<Rightarrow> database \<Rightarrow> string \<Rightarrow> order_status
     \<Rightarrow> go_error option \<times> database" where
  "UpdateOrderStatus srv now db orderID st =
     (if fails srv StatusExec
      then (Some (Errorf_w ''failed to update order status'' (driver_error StatusExec)), db)
      else let db' = db\<lparr>orders :=
                     map (\<lambda>ord. if sql_eq srv (order_id ord) orderID then set_status now st ord
                               else ord)
                         (orders db)\<rparr>
        in if fails srv RowsAffected
           then (Some (Errorf_w ''failed to get rows affected'' (driver_error RowsAffected)), db')
           else if rows_affected srv now db orderID st = 0
           then (Some (errors_New ''order not found''), db')
           else (None, db'))"

text \<open>\<^verbatim>\<open>GetOrder\<close>: \<^verbatim>\<open>sql.ErrNoRows\<close> becomes \<^verbatim>\<open>errors.New("order not found")\<close>.\<close>

definition GetOrder :: "mysql \<Rightarrow> database \<Rightarrow> string \<Rightarrow> go_error + order_row" where
  "GetOrder srv db orderID =
     (if fails srv OrderQuery then Inl (Errorf_w ''failed to get order'' (driver_error OrderQuery))
      else case find (\<lambda>ord. sql_eq srv (order_id ord) orderID) (orders db) of
             None \<Rightarrow> Inl (errors_New ''order not found'')
           | Some ord \<Rightarrow> Inr ord)"

text \<open>
  \<^verbatim>\<open>GetOrderSeats\<close>: the seat numbers of the rows an order owns. The rows are listed in
  table order; the collation behind \<^verbatim>\<open>ORDER BY seat_number\<close> is not modelled.
\<close>

definition GetOrderSeats :: "mysql \<Rightarrow> database \<Rightarrow> string \<Rightarrow> go_error + string list" where
  "GetOrderSeats srv db orderID =
     (if fails srv SeatsQuery
      then Inl (Errorf_w ''failed to query order seats'' (driver_error SeatsQuery))
      else Inr (map seat_number
                  (filter (\<lambda>r. sql_eq_nullable srv (reserved_by r) orderID) (seats db))))"

section \<open>Configuration\<close>

text \<open>
  \<^verbatim>\<open>config.Config\<close>, as \<^verbatim>\<open>config.Load()\<close> returns it. \<open>ReservationTimeout\<close> comes from the
  environment variable \<^verbatim>\<open>RESERVATION_TIMEOUT\<close> (15 minutes when unset or invalid).
\<close>

record Config =
  ReservationTimeout :: duration
  PaymentTimeout :: duration
  MaxPaymentRetries :: int

section \<open>Activities\<close>

text \<open>
  The seat activities hand every error of the store on inside
  \<^verbatim>\<open>fmt.Errorf("failed to ...: %w", err)\<close>, an ordinary Go error.
\<close>

definition SeatActivities_ReserveSeats ::
  "mysql \<Rightarrow> time \<Rightarrow> string \<Rightarrow> string list \<Rightarrow> string \<Rightarrow> string \<Rightarrow> database
     \<Rightarrow> go_error option \<times> database" where
  "SeatActivities_ReserveSeats srv now flightID seatNumbers orderID userID db =
     (case ReserveSeats srv now db flightID seatNumbers orderID userID of
        (Some err, db') \<Rightarrow> (Some (Errorf_w ''failed to reserve seats'' err), db')
      | (None, db') \<Rightarrow> (None, db'))"

definition SeatActivities_ReleaseSeats ::
  "mysql \<Rightarrow> string \<Rightarrow> database \<Rightarrow> go_error option \<times> database" where
  "SeatActivities_ReleaseSeats srv orderID db =
     (case ReleaseSeats srv db orderID of
        (Some err, db') \<Rightarrow> (Some (Errorf_w ''failed to release seats'' err), db')
      | (None, db') \<Rightarrow> (None, db'))"

definition SeatActivities_UpdateSeats ::
  "mysql \<Rightarrow> time \<Rightarrow> string \<Rightarrow> string list \<Rightarrow> string list \<Rightarrow> database
     \<Rightarrow> go_error option \<times> database" where
  "SeatActivities_UpdateSeats srv now orderID oldSeats newSeats db =
     (case UpdateSeats srv now db orderID oldSeats newSeats of
        (Some err, db') \<Rightarrow> (Some (Errorf_w ''failed to update seats'' err), db')
      | (None, db') \<Rightarrow> (None, db'))"

definition SeatActivities_ConfirmSeats ::
  "mysql \<Rightarrow> string \<Rightarrow> database \<Rightarrow> go_error option \<times> database" where
  "SeatActivities_ConfirmSeats srv orderID db =
     (case ConfirmSeats srv db orderID of
        (Some err, db') \<Rightarrow> (Some (Errorf_w ''failed to confirm seats'' err), db')
      | (None, db') \<Rightarrow> (None, db'))"

text \<open>
  \<^verbatim>\<open>OrderActivities.UpdateOrderStatus\<close> (activities/orders.go): an error for which
  \<^verbatim>\<open>errors.Is(err, database.ErrOrderNotFound)\<close> holds is turned into a non-retryable
  application error of type "OrderNotFound"; any other error is wrapped as an ordinary one.
\<close>

definition OrderActivities_UpdateOrderStatus ::
  "mysql \<Rightarrow> time \<Rightarrow> string \<Rightarrow> order_status \<Rightarrow> database
     \<Rightarrow> go_error option \<times> database" where
  "OrderActivities_UpdateOrderStatus srv now orderID st db =
     (case UpdateOrderStatus srv now db orderID st of
        (Some err, db') \<Rightarrow>
          if errors_Is err ErrOrderNotFound
          then (Some (NonRetryableApplicationError (Error err) ''OrderNotFound'' err), db')
          else (Some (Errorf_w ''failed to update order status'' err), db')
      | (None, db') \<Rightarrow> (None, db'))"

text \<open>
  The payment oracle \<^verbatim>\<open>PaymentActivities.ValidatePayment\<close>. The pattern \<^verbatim>\<open>^\d{5}$\<close> matches
  exactly the strings of five ASCII digits. The simulated gateway failure (15 percent) and
  the fresh transaction id are inputs.
\<close>

record PaymentResult =
  Success :: bool
  TransactionID :: string
  ErrorMessage :: string

definition is_digit :: "char \<Rightarrow> bool" where
  "is_digit c = (c \<in> set ''0123456789'')"

definition MatchString_5_digits :: "string \<Rightarrow> bool" where
  "MatchString_5_digits paymentCode = (length paymentCode = 5 \<and> list_all is_digit paymentCode)"

definition ValidatePayment :: "bool \<Rightarrow> string \<Rightarrow> string \<Rightarrow> PaymentResult \<times> go_error option" where
  "ValidatePayment gateway_fails transactionID paymentCode =
     (if \<not> MatchString_5_digits paymentCode
      then (\<lparr>Success = False, TransactionID = [],
             ErrorMessage = ''invalid payment code format (must be 5 digits)''\<rparr>, None)
      else if gateway_fails
      then (\<lparr>Success = False, TransactionID = [],
             ErrorMessage = ''payment gateway error (simulated)''\<rparr>,
            Some (errors_New ''payment gateway error''))
      else (\<lparr>Success = True, TransactionID = transactionID, ErrorMessage = []\<rparr>, None))"

section \<open>Activity execution under the retry policy\<close>

text \<open>
  \<^verbatim>\<open>workflow.ExecuteActivity\<close> with the options of \<^verbatim>\<open>BookingWorkflow\<close>: a retry policy of at
  most five attempts and no list of non-retryable error types. The workflow runtime is not
  part of the repository; what is used of it is its documented contract: a failed attempt
  is repeated unless the activity returned a non-retryable application error or the
  attempts are used up. Every attempt runs the activity on the state the attempt before
  left; the waiting times between attempts are not modelled. The result carries the number
  of attempts made.
\<close>

record RetryPolicy =
  InitialInterval :: duration
  BackoffCoefficient :: int
  MaximumInterval :: duration
  MaximumAttempts :: nat

definition booking_RetryPolicy :: RetryPolicy where
  "booking_RetryPolicy =
     \<lparr>InitialInterval = Second, BackoffCoefficient = 2, MaximumInterval = 30 * Second,
      MaximumAttempts = 5\<rparr>"

fun retryable :: "go_error \<Rightarrow> bool" where
  "retryable (NonRetryableApplicationError m ty c) = False"
| "retryable e = True"

fun attempt_activity ::
  "nat \<Rightarrow> ('s \<Rightarrow> go_error option \<times> 's) \<Rightarrow> 's \<Rightarrow> go_error option \<times> 's \<times> nat" where
  "attempt_activity 0 activity s = (case activity s of (r, s') \<Rightarrow> (r, s', 1))"
| "attempt_activity (Suc left) activity s =
     (case activity s of
        (None, s') \<Rightarrow> (None, s', 1)
      | (Some err, s') \<Rightarrow>
          if retryable err
          then (case attempt_activity left activity s' of (r, s'', n) \<Rightarrow> (r, s'', Suc n))
          else (Some err, s', 1))"

definition ExecuteActivity ::
  "RetryPolicy \<Rightarrow> ('s \<Rightarrow> go_error option \<times> 's) \<Rightarrow> 's \<Rightarrow> go_error option \<times> 's \<times> nat" where
  "ExecuteActivity policy activity s = attempt_activity (MaximumAttempts policy - 1) activity s"

text \<open>
  \<^verbatim>\<open>PaymentValidationWorkflow\<close> (workflows/payment.go), given what the retried
  \<^verbatim>\<open>ValidatePayment\<close> activity finally returned. A workflow that returns an error hands its
  parent the error only.
\<close>

definition PaymentValidationWorkflow :: "PaymentResult \<times> go_error option \<Rightarrow> go_error + PaymentResult" where
  "PaymentValidationWorkflow activity_result =
     (case activity_result of
        (result, Some err) \<Rightarrow> Inl err
      | (result, None) \<Rightarrow>
          if \<not> Success result
          then Inl (Errorf (''payment validation failed: '' @ ErrorMessage result))
          else Inr result)"

section \<open>The order orchestrator: \<^verbatim>\<open>BookingWorkflow\<close>\<close>

record BookingInput =
  input_OrderID :: string
  input_FlightID :: string
  input_UserID :: string
  input_Seats :: "string list"

record BookingState =
  OrderID :: string
  FlightID :: string
  UserID :: string
  Seats :: "string list"
  Status :: order_status
  ReservationStartAt :: time
  PaymentAttempts :: int

text \<open>
  Every \<^verbatim>\<open>workflow.ExecuteActivity\<close> and \<^verbatim>\<open>workflow.ExecuteChildWorkflow\<close> of the workflow,
  with the arguments it passes. The seat update passes the order id and the new seats.
\<close>

datatype call =
    Call_ReserveSeats string "string list" string string
  | Call_UpdateSeats string "string list"
  | Call_UpdateOrderStatus string order_status
  | Call_ConfirmSeats string
  | Call_ReleaseSeats string
  | Call_SendConfirmation string
  | Call_PaymentValidationWorkflow string string string

text \<open>
  The variables of the running workflow: the state the query handler returns, the error
  variable \<open>workflowErr\<close>, the deadline of the timer behind \<open>timerFuture\<close>, and the calls
  made so far.
\<close>

record run =
  state :: BookingState
  workflowErr :: "go_error option"
  timer_deadline :: "time option"
  calls :: "call list"

definition invoke :: "call \<Rightarrow> run \<Rightarrow> run" where
  "invoke c r = r\<lparr>calls := calls r @ [c]\<rparr>"

definition set_Status :: "order_status \<Rightarrow> run \<Rightarrow> run" where
  "set_Status st r = r\<lparr>state := (state r)\<lparr>Status := st\<rparr>\<rparr>"

text \<open>
  One turn of \<^verbatim>\<open>selector.Select\<close> services one source. The event names the source and
  carries what the handler receives from outside the workflow: the signal's payload, the
  results of the activities and of the child workflow it awaits, and \<^verbatim>\<open>workflow.Now\<close>.
\<close>

datatype event =
    updateSeats "string list" "go_error option" time
  | submitPayment string "go_error + PaymentResult" "go_error option"
  | cancelOrder bool "go_error option"
  | timerFuture "go_error option" "go_error option"


text \<open>The handler of the \<^verbatim>\<open>updateSeats\<close> channel (booking.go, lines 100-123).\<close>

definition handle_updateSeats :: "Config \<Rightarrow> string list \<Rightarrow> go_error option \<Rightarrow> time \<Rightarrow> run \<Rightarrow> run" where
  "handle_updateSeats cfg newSeats result now r =
     (let r1 = invoke (Call_UpdateSeats (OrderID (state r)) newSeats) r in
      case result of
        Some err \<Rightarrow> r1
      | None \<Rightarrow>
          r1\<lparr>state := (state r1)\<lparr>Seats := newSeats, ReservationStartAt := now\<rparr>,
             timer_deadline := Some (now + ReservationTimeout cfg)\<rparr>)"

text \<open>
  The release of the seats after a payment failure, a cancellation or an expiry: a failed
  release sets \<open>workflowErr\<close> and returns from the handler; otherwise the status is pushed to
  the order store.
\<close>

definition release_and_push :: "order_status \<Rightarrow> go_error option \<Rightarrow> run \<Rightarrow> run" where
  "release_and_push st releaseErr r =
     (let r1 = invoke (Call_ReleaseSeats (OrderID (state r))) r in
      case releaseErr of
        Some err \<Rightarrow> r1\<lparr>workflowErr := Some (Errorf_w ''failed to release seats'' err)\<rparr>
      | None \<Rightarrow> invoke (Call_UpdateOrderStatus (OrderID (state r)) st) r1)"

text \<open>The handler of the \<^verbatim>\<open>submitPayment\<close> channel (lines 126-183).\<close>

definition handle_submitPayment ::
  "string \<Rightarrow> string \<Rightarrow> go_error + PaymentResult \<Rightarrow> go_error option \<Rightarrow> run \<Rightarrow> run" where
  "handle_submitPayment runID paymentCode child releaseErr r =
     (let orderID = OrderID (state r);
          r1 = invoke (Call_UpdateOrderStatus orderID PAYMENT_PENDING) (set_Status PAYMENT_PENDING r);
          r2 = invoke (Call_PaymentValidationWorkflow (orderID @ ''-payment-'' @ runID)
                         paymentCode orderID) r1
      in if (case child of Inl err \<Rightarrow> False | Inr paymentResult \<Rightarrow> Success paymentResult)
         then invoke (Call_SendConfirmation orderID)
                (invoke (Call_UpdateOrderStatus orderID CONFIRMED)
                   (invoke (Call_ConfirmSeats orderID) (set_Status CONFIRMED r2)))
         else release_and_push FAILED releaseErr (set_Status FAILED r2))"

text \<open>The handlers of the \<^verbatim>\<open>cancelOrder\<close> channel and of the timer (lines 186-235).\<close>

definition handle_cancelOrder :: "go_error option \<Rightarrow> run \<Rightarrow> run" where
  "handle_cancelOrder releaseErr r = release_and_push CANCELLED releaseErr (set_Status CANCELLED r)"

definition handle_timerFuture :: "go_error option \<Rightarrow> go_error option \<Rightarrow> run \<Rightarrow> run" where
  "handle_timerFuture timerErr releaseErr r =
     (case timerErr of
        Some err \<Rightarrow> r
      | None \<Rightarrow> release_and_push EXPIRED releaseErr (set_Status EXPIRED r))"

fun Select :: "Config \<Rightarrow> string \<Rightarrow> run \<Rightarrow> event \<Rightarrow> run" where
  "Select cfg runID r (updateSeats newSeats result now) = handle_updateSeats cfg newSeats result now r"
| "Select cfg runID r (submitPayment paymentCode child releaseErr) =
     handle_submitPayment runID paymentCode child releaseErr r"
| "Select cfg runID r (cancelOrder cancel releaseErr) = handle_cancelOrder releaseErr r"
| "Select cfg runID r (timerFuture timerErr releaseErr) = handle_timerFuture timerErr releaseErr r"

text \<open>The exit conditions at the end of the loop body (lines 239-246).\<close>

definition exit_condition :: "run \<Rightarrow> bool" where
  "exit_condition r =
     (Status (state r) = CONFIRMED \<or> Status (state r) = FAILED \<or> Status (state r) = EXPIRED \<or>
      Status (state r) = CANCELLED \<or> workflowErr r \<noteq> None)"

text \<open>
  What the workflow function has done after the events delivered so far: it has returned
  its result and error, or it is blocked in \<^verbatim>\<open>selector.Select\<close>.
\<close>

datatype outcome = Returned "BookingState option" "go_error option" | Waiting

fun event_loop :: "Config \<Rightarrow> string \<Rightarrow> run \<Rightarrow> event list \<Rightarrow> run \<times> outcome" where
  "event_loop cfg runID r [] = (r, Waiting)"
| "event_loop cfg runID r (ev # evs) =
     (let r' = Select cfg runID r ev in
      if exit_condition r' then (r', Returned (Some (state r')) (workflowErr r'))
      else event_loop cfg runID r' evs)"

text \<open>
  What the start-up of the workflow receives from outside: \<^verbatim>\<open>workflow.Now\<close> at
  initialisation, the result of \<^verbatim>\<open>SetQueryHandler\<close>, the result of the initial
  \<^verbatim>\<open>ReserveSeats\<close> activity, and \<^verbatim>\<open>workflow.Now\<close> after it.
\<close>

record startup =
  now_initial :: time
  query_handler_err :: "go_error option"
  reserve_result :: "go_error option"
  now_reserved :: time

text \<open>The variables as \<^verbatim>\<open>BookingWorkflow\<close> initialises them.\<close>

definition initial_run :: "BookingInput \<Rightarrow> startup \<Rightarrow> run" where
  "initial_run input su =
     \<lparr>state = \<lparr>OrderID = input_OrderID input, FlightID = input_FlightID input,
                UserID = input_UserID input, Seats = [], Status = CREATED,
                ReservationStartAt = now_initial su, PaymentAttempts = 0\<rparr>,
      workflowErr = None, timer_deadline = None, calls = []\<rparr>"

text \<open>
  After the initial reservation has succeeded (lines 79-90): the state records the seats,
  the status \<open>SEATS_RESERVED\<close> and the start of the hold, the status is pushed to the order
  store, and the reservation timer is started.
\<close>

definition seats_reserved :: "Config \<Rightarrow> BookingInput \<Rightarrow> startup \<Rightarrow> run \<Rightarrow> run" where
  "seats_reserved cfg input su r1 =
     (let r2 = r1\<lparr>state := (state r1)\<lparr>Seats := input_Seats input, Status := SEATS_RESERVED,
                                        ReservationStartAt := now_reserved su\<rparr>\<rparr>;
          r3 = invoke (Call_UpdateOrderStatus (input_OrderID input) SEATS_RESERVED) r2
      in r3\<lparr>timer_deadline := Some (now_reserved su + ReservationTimeout cfg)\<rparr>)"

definition BookingWorkflow ::
  "Config \<Rightarrow> string \<Rightarrow> BookingInput \<Rightarrow> startup \<Rightarrow> event list \<Rightarrow> run \<times> outcome" where
  "BookingWorkflow cfg runID input su evs =
     (let r0 = initial_run input su
      in case query_handler_err su of
        Some err \<Rightarrow> (r0, Returned None (Some err))
      | None \<Rightarrow>
          let r1 = invoke (Call_ReserveSeats (input_FlightID input) (input_Seats input)
                             (input_OrderID input) (input_UserID input)) r0
          in case reserve_result su of
            Some err \<Rightarrow>
              (let r2 = set_Status FAILED r1 in (r2, Returned (Some (state r2)) (Some err)))
          | None \<Rightarrow> event_loop cfg runID (seats_reserved cfg input su r1) evs)"

definition terminal :: "order_status \<Rightarrow> bool" where
  "terminal st = (st = CONFIRMED \<or> st = FAILED \<or> st = EXPIRED \<or> st = CANCELLED)"

section \<open>The request facade\<close>


definition ulp64 :: "real \<Rightarrow> real" where
  "ulp64 x = 2 powr (of_int (\<lfloor>log 2 \<bar>x\<bar>\<rfloor> - 52))"





text \<open>What a handler writes: \<^verbatim>\<open>http.Error(w, message, code)\<close> or a JSON body with a status code.\<close>

datatype 'a http_response = http_Error string nat | JSON nat 'a


text \<open>
  \<^verbatim>\<open>SubmitPayment\<close> (lines 201-234). The body is the result of decoding the JSON request;
  \<open>SignalWorkflow\<close> is the workflow client. The second component lists the signals the
  handler passed to the client.
\<close>

datatype signal = Signal string string string string

definition SignalSubmitPayment :: string where
  "SignalSubmitPayment = ''submitPayment''"

definition SubmitPayment ::
  "mysql \<Rightarrow> database \<Rightarrow> (signal \<Rightarrow> go_error option) \<Rightarrow> string \<Rightarrow> go_error + string
     \<Rightarrow> string http_response \<times> signal list" where
  "SubmitPayment srv db SignalWorkflow orderID body =
     (case body of
        Inl err \<Rightarrow> (http_Error (''invalid request body: '' @ Error err) 400, [])
      | Inr paymentCode \<Rightarrow>
          if length paymentCode \<noteq> 5
          then (http_Error ''payment code must be 5 digits'' 400, [])
          else case GetOrder srv db orderID of
            Inl err \<Rightarrow> (http_Error (''order not found: '' @ Error err) 404, [])
          | Inr order \<Rightarrow>
              let sig = Signal (workflow_id order) (run_id order) SignalSubmitPayment paymentCode
              in case SignalWorkflow sig of
                Some err \<Rightarrow> (http_Error (''failed to send signal: '' @ Error err) 500, [sig])
              | None \<Rightarrow> (JSON 200 ''payment submitted'', [sig]))"

definition status_code :: "'a http_response \<Rightarrow> nat" where
  "status_code resp = (case resp of http_Error message code \<Rightarrow> code | JSON code body \<Rightarrow> code)"

section \<open>A seat table and an order table to run the code on\<close>

text \<open>
  Flight FL123 with four seats: A1 is held by order O1 since time 0, A2 is booked by order
  O9, B1 is free, and N1 is held by O1 with no \<open>reserved_at\<close>. The orders O1, O2 and O9
  exist.
\<close>

definition seat_A1 :: seat_row where
  "seat_A1 = \<lparr>seat_id = ''s-a1'', flight_id = ''FL123'', seat_number = ''A1'', status = RESERVED,
               reserved_by = Some ''O1'', user_id = Some ''alice'', reserved_at = Some 0\<rparr>"

definition seat_A2 :: seat_row where
  "seat_A2 = \<lparr>seat_id = ''s-a2'', flight_id = ''FL123'', seat_number = ''A2'', status = BOOKED,
               reserved_by = Some ''O9'', user_id = Some ''carol'', reserved_at = Some 0\<rparr>"

definition seat_B1 :: seat_row where
  "seat_B1 = \<lparr>seat_id = ''s-b1'', flight_id = ''FL123'', seat_number = ''B1'', status = AVAILABLE,
               reserved_by = None, user_id = None, reserved_at = None\<rparr>"

definition seat_N1 :: seat_row where
  "seat_N1 = \<lparr>seat_id = ''s-n1'', flight_id = ''FL123'', seat_number = ''N1'', status = RESERVED,
               reserved_by = Some ''O1'', user_id = Some ''alice'', reserved_at = None\<rparr>"

definition order_O1 :: order_row where
  "order_O1 = \<lparr>order_id = ''O1'', order_flight_id = ''FL123'', order_user_id = ''alice'',
                order_status = SEATS_RESERVED, workflow_id = ''O1'', run_id = ''run-1'',
                updated_at = 0\<rparr>"

definition order_O2 :: order_row where
  "order_O2 = \<lparr>order_id = ''O2'', order_flight_id = ''FL123'', order_user_id = ''bob'',
                order_status = CREATED, workflow_id = ''O2'', run_id = ''run-2'', updated_at = 0\<rparr>"

definition order_O9 :: order_row where
  "order_O9 = \<lparr>order_id = ''O9'', order_flight_id = ''FL123'', order_user_id = ''carol'',
                order_status = CONFIRMED, workflow_id = ''O9'', run_id = ''run-9'', updated_at = 0\<rparr>"

definition example_db :: database where
  "example_db = \<lparr>seats = [seat_A1, seat_A2, seat_B1, seat_N1],
                  orders = [order_O1, order_O2, order_O9]\<rparr>"

text \<open>A configuration with a hold window of 30 seconds, and one with the default.\<close>

definition config_30s :: Config where
  "config_30s = \<lparr>ReservationTimeout = 30 * Second, PaymentTimeout = 10 * Second,
                  MaxPaymentRetries = 3\<rparr>"

definition config_default :: Config where
  "config_default = \<lparr>ReservationTimeout = 15 * Minute, PaymentTimeout = 10 * Second,
                      MaxPaymentRetries = 3\<rparr>"


text \<open>The start of the workflow of order O1, with the initial reservation succeeding.\<close>

definition input_O1 :: BookingInput where
  "input_O1 = \<lparr>input_OrderID = ''O1'', input_FlightID = ''FL123'', input_UserID = ''alice'',
                input_Seats = [''A1'']\<rparr>"

definition startup_ok :: startup where
  "startup_ok = \<lparr>now_initial = 0, query_handler_err = None, reserve_result = None,
                  now_reserved = 1\<rparr>"

text \<open>
  The start of the workflow of order O2, which asks for the booked seat A2: the initial
  reservation is executed against the example tables under the workflow's retry policy.
\<close>

definition input_O2 :: BookingInput where
  "input_O2 = \<lparr>input_OrderID = ''O2'', input_FlightID = ''FL123'', input_UserID = ''bob'',
                input_Seats = [''A2'']\<rparr>"

definition startup_O2 :: startup where
  "startup_O2 =
     \<lparr>now_initial = 100, query_handler_err = None,
      reserve_result =
        fst (ExecuteActivity booking_RetryPolicy
               (SeatActivities_ReserveSeats server_ok 100 (input_FlightID input_O2)
                  (input_Seats input_O2) (input_OrderID input_O2) (input_UserID input_O2))
               example_db),
      now_reserved = 100\<rparr>"

definition payment_ok :: PaymentResult where
  "payment_ok = \<lparr>Success = True, TransactionID = ''tx-1'', ErrorMessage = []\<rparr>"

section \<open>Comparisons under the collation\<close>

lemma sql_eq_refl [simp]: "sql_eq srv v v"
  by (simp add: sql_eq_def)

lemma sql_in_Nil [simp]: "sql_in srv column [] = False"
  by (simp add: sql_in_def)

lemma sql_in_iff: "sql_in srv column vs \<longleftrightarrow> (\<exists>v \<in> set vs. sql_eq srv column v)"
  by (simp add: sql_in_def list_ex_iff)

lemma sql_in_member: "v \<in> set vs \<Longrightarrow> sql_in srv v vs"
  unfolding sql_in_iff by (rule bexI[of _ v]) simp_all

section \<open>The scan and the existence loop\<close>

lemma scan_rows_no_scan_failure:
  "\<not> fails srv ScanRow \<Longrightarrow>
   scan_rows srv now unavailable rows foundSeats =
     (case find (\<lambda>r. \<not> row_passes now r) rows of
        Some r \<Rightarrow> Inl (unavailable (seat_number r))
      | None \<Rightarrow> Inr (foundSeats \<union> seat_number ` set rows))"
  by (induction rows arbitrary: foundSeats) (auto split: option.splits)

lemma scan_rows_scan_failure:
  "fails srv ScanRow \<Longrightarrow>
   scan_rows srv now unavailable rows foundSeats =
     (if rows = [] then Inr foundSeats
      else Inl (Errorf_w ''failed to scan seat'' (driver_error ScanRow)))"
  by (cases rows) auto

lemma scan_rows_found_subset:
  assumes "scan_rows srv now unavailable rows {} = Inr foundSeats"
  shows "foundSeats \<subseteq> seat_number ` set rows"
proof (cases "fails srv ScanRow")
  case True
  with assms show ?thesis by (simp add: scan_rows_scan_failure split: if_splits)
next
  case False
  with assms show ?thesis by (auto simp add: scan_rows_no_scan_failure split: option.splits)
qed

lemma verify_exist_find:
  "verify_exist missing seatNumbers foundSeats =
     (case find (\<lambda>s. s \<notin> foundSeats) seatNumbers of Some s \<Rightarrow> Some (missing s) | None \<Rightarrow> None)"
  by (induction seatNumbers) auto

lemma verify_exist_None:
  "verify_exist missing seatNumbers foundSeats = None \<Longrightarrow> set seatNumbers \<subseteq> foundSeats"
  by (auto simp: verify_exist_find find_None_iff split: option.splits)

section \<open>\<^verbatim>\<open>ReserveSeats\<close> without driver failures before the checks\<close>

lemma ReserveSeats_result:
  assumes "\<not> fails srv BeginTx" "\<not> fails srv LockQuery" "\<not> fails srv ScanRow" "seatNumbers \<noteq> []"
  shows "ReserveSeats srv now db flightID seatNumbers orderID userID =
     (case find (\<lambda>r. \<not> row_passes now r) (lock_seats srv (Begin db) flightID seatNumbers) of
        Some r \<Rightarrow> (Some (SeatNotAvailable (seat_number r)), db)
      | None \<Rightarrow>
         (case find (\<lambda>s. s \<notin> seat_number ` set (lock_seats srv (Begin db) flightID seatNumbers))
                 seatNumbers of
            Some s \<Rightarrow> (Some (SeatNotExist s), db)
          | None \<Rightarrow>
             if fails srv ReserveExec
             then (Some (Errorf_w ''failed to reserve seats'' (driver_error ReserveExec)), db)
             else if fails srv CommitTx then (Some (driver_error CommitTx), db)
             else (None, db\<lparr>seats :=
                     map (\<lambda>r. if sql_eq srv (flight_id r) flightID \<and>
                                  sql_in srv (seat_number r) seatNumbers
                               then reserve_row now orderID userID r else r) (seats db)\<rparr>)))"
  using assms
  by (simp add: ReserveSeats_def scan_rows_no_scan_failure verify_exist_find Let_def Rollback_def
      Commit_def Begin_def exec_reserve_def split: option.splits)

section \<open>\<^verbatim>\<open>UpdateSeats\<close>: rollback and the committed table\<close>

lemma Rollback_simps [simp]:
  "Rollback (Begin db) = db"
  "Rollback (exec_release_old srv orderID oldSeats t) = Rollback t"
  "Rollback (exec_reserve srv now flightID seatNumbers orderID userID t) = Rollback t"
  by (simp_all add: Rollback_def Begin_def exec_release_old_def exec_reserve_def)

lemma UpdateSeats_rollback:
  "fst (UpdateSeats srv now db orderID oldSeats newSeats) \<noteq> None \<longrightarrow>
   snd (UpdateSeats srv now db orderID oldSeats newSeats) = db"
  unfolding UpdateSeats_def Let_def
  by (simp add: return_Commit_def split: option.split sum.split)

lemma reserve_release_row: "reserve_row now oid uid (release_row r) = reserve_row now oid uid r"
  by (simp add: reserve_row_def release_row_def)

lemma release_row_keeps [simp]:
  "flight_id (release_row r) = flight_id r" "seat_number (release_row r) = seat_number r"
  by (simp_all add: release_row_def)

lemma released_working:
  "working (if oldSeats \<noteq> [] then exec_release_old srv orderID oldSeats (Begin db) else Begin db) =
     db\<lparr>seats := map (\<lambda>r. if sql_eq_nullable srv (reserved_by r) orderID \<and> sql_in srv (seat_number r) oldSeats
                           then release_row r else r) (seats db)\<rparr>"
  by (simp add: exec_release_old_def Begin_def)

lemma UpdateSeats_found:
  assumes "\<not> fails srv BeginTx" "\<not> fails srv OrderLookup"
      "find (\<lambda>ord. sql_eq srv (order_id ord) orderID) (orders db) = Some ord"
      "oldSeats = [] \<or> \<not> fails srv ReleaseExec"
  shows "UpdateSeats srv now db orderID oldSeats newSeats =
     (let t1 = (if oldSeats \<noteq> [] then exec_release_old srv orderID oldSeats (Begin db) else Begin db) in
      if newSeats = [] then return_Commit srv t1
      else if fails srv LockQuery
      then (Some (Errorf_w ''failed to lock new seats'' (driver_error LockQuery)), db)
      else case scan_rows srv now update_not_available
                  (lock_seats srv t1 (order_flight_id ord) newSeats) {} of
        Inl e \<Rightarrow> (Some e, db)
      | Inr foundSeats \<Rightarrow>
          (case verify_exist update_not_exist newSeats foundSeats of
             Some e \<Rightarrow> (Some e, db)
           | None \<Rightarrow>
               if fails srv ReserveExec
               then (Some (Errorf_w ''failed to reserve new seats'' (driver_error ReserveExec)), db)
               else return_Commit srv
                      (exec_reserve srv now (order_flight_id ord) newSeats orderID (order_user_id ord) t1)))"
proof -
  have s: "select_order srv (Begin db) orderID = Some ord"
    using assms(3) by (simp add: select_order_def Begin_def)
  show ?thesis
    unfolding UpdateSeats_def Let_def using assms(1,2,4) s
    by (auto split: sum.split option.split)
qed

lemma UpdateSeats_early_errors:
  "fails srv BeginTx \<Longrightarrow> fst (UpdateSeats srv now db orderID oldSeats newSeats) \<noteq> None"
  "fails srv OrderLookup \<Longrightarrow> fst (UpdateSeats srv now db orderID oldSeats newSeats) \<noteq> None"
  "select_order srv (Begin db) orderID = None \<Longrightarrow>
     fst (UpdateSeats srv now db orderID oldSeats newSeats) \<noteq> None"
  "oldSeats \<noteq> [] \<and> fails srv ReleaseExec \<Longrightarrow>
     fst (UpdateSeats srv now db orderID oldSeats newSeats) \<noteq> None"
  by (simp_all add: UpdateSeats_def Let_def split: option.split)

lemma UpdateSeats_success_order:
  assumes "UpdateSeats srv now db orderID oldSeats newSeats = (None, db')"
  shows "\<not> fails srv BeginTx \<and> \<not> fails srv OrderLookup \<and> (oldSeats = [] \<or> \<not> fails srv ReleaseExec) \<and>
         (\<exists>ord. find (\<lambda>ord. sql_eq srv (order_id ord) orderID) (orders db) = Some ord)"
proof -
  have f: "fst (UpdateSeats srv now db orderID oldSeats newSeats) = None"
    using assms by simp
  have 1: "\<not> fails srv BeginTx"
  proof
    assume "fails srv BeginTx"
    with UpdateSeats_early_errors(1)
      [where srv = srv and now = now and db = db and orderID = orderID
        and oldSeats = oldSeats and newSeats = newSeats] f
    show False by simp
  qed
  have 2: "\<not> fails srv OrderLookup"
  proof
    assume "fails srv OrderLookup"
    with UpdateSeats_early_errors(2)
      [where srv = srv and now = now and db = db and orderID = orderID
        and oldSeats = oldSeats and newSeats = newSeats] f
    show False by simp
  qed
  have 3: "select_order srv (Begin db) orderID \<noteq> None"
  proof
    assume "select_order srv (Begin db) orderID = None"
    with UpdateSeats_early_errors(3)
      [where srv = srv and now = now and db = db and orderID = orderID
        and oldSeats = oldSeats and newSeats = newSeats] f
    show False by simp
  qed
  have 4: "oldSeats = [] \<or> \<not> fails srv ReleaseExec"
  proof (rule ccontr)
    assume "\<not> (oldSeats = [] \<or> \<not> fails srv ReleaseExec)"
    then have "oldSeats \<noteq> [] \<and> fails srv ReleaseExec" by simp
    with UpdateSeats_early_errors(4)
      [where srv = srv and now = now and db = db and orderID = orderID
        and oldSeats = oldSeats and newSeats = newSeats] f
    show False by simp
  qed
  from 3 have "\<exists>ord. find (\<lambda>ord. sql_eq srv (order_id ord) orderID) (orders db) = Some ord"
    by (simp add: select_order_def Begin_def)
  with 1 2 4 show ?thesis by simp
qed

lemma UpdateSeats_success:
  assumes "UpdateSeats srv now db orderID oldSeats newSeats = (None, db')"
  shows "\<exists>ord. find (\<lambda>ord. sql_eq srv (order_id ord) orderID) (orders db) = Some ord \<and>
           db' = db\<lparr>seats :=
                   map (\<lambda>r. if sql_eq srv (flight_id r) (order_flight_id ord) \<and> sql_in srv (seat_number r) newSeats
                             then reserve_row now orderID (order_user_id ord) r
                             else if sql_eq_nullable srv (reserved_by r) orderID \<and> sql_in srv (seat_number r) oldSeats
                             then release_row r else r) (seats db)\<rparr> \<and>
           (\<forall>s \<in> set newSeats. \<exists>r \<in> set (seats db).
               sql_eq srv (flight_id r) (order_flight_id ord) \<and> seat_number r = s)"
proof -
  from UpdateSeats_success_order[OF assms] obtain ord where
    nf: "\<not> fails srv BeginTx" "\<not> fails srv OrderLookup" "oldSeats = [] \<or> \<not> fails srv ReleaseExec"
    and ord: "find (\<lambda>ord. sql_eq srv (order_id ord) orderID) (orders db) = Some ord" by blast
  define t1 where
    "t1 = (if oldSeats \<noteq> [] then exec_release_old srv orderID oldSeats (Begin db) else Begin db)"
  define fid where "fid = order_flight_id ord"
  define uid where "uid = order_user_id ord"
  define rows where "rows = lock_seats srv t1 fid newSeats"
  have U: "(if newSeats = [] then return_Commit srv t1
      else if fails srv LockQuery
      then (Some (Errorf_w ''failed to lock new seats'' (driver_error LockQuery)), db)
      else case scan_rows srv now update_not_available rows {} of
        Inl e \<Rightarrow> (Some e, db)
      | Inr foundSeats \<Rightarrow>
          (case verify_exist update_not_exist newSeats foundSeats of
             Some e \<Rightarrow> (Some e, db)
           | None \<Rightarrow>
               if fails srv ReserveExec
               then (Some (Errorf_w ''failed to reserve new seats'' (driver_error ReserveExec)), db)
               else return_Commit srv (exec_reserve srv now fid newSeats orderID uid t1))) = (None, db')"
    using UpdateSeats_found[OF nf(1,2) ord nf(3), of now newSeats] assms
    by (simp only: Let_def t1_def fid_def uid_def rows_def)
  have w: "working t1 =
      db\<lparr>seats := map (\<lambda>r. if sql_eq_nullable srv (reserved_by r) orderID \<and> sql_in srv (seat_number r) oldSeats
                            then release_row r else r) (seats db)\<rparr>"
    unfolding t1_def by (rule released_working)
  show ?thesis
  proof (cases "newSeats = []")
    case True
    with U have "return_Commit srv t1 = (None, db')" by simp
    then have "db' = working t1"
      by (simp add: return_Commit_def Commit_def split: if_splits)
    with True ord w show ?thesis by simp
  next
    case False
    have lq: "\<not> fails srv LockQuery"
      using U False by auto
    obtain F where F: "scan_rows srv now update_not_available rows {} = Inr F"
      using U False lq by (cases "scan_rows srv now update_not_available rows {}") auto
    have V: "verify_exist update_not_exist newSeats F = None"
      using U False lq F by (cases "verify_exist update_not_exist newSeats F") auto
    have re: "\<not> fails srv ReserveExec"
      using U False lq F V by auto
    have "return_Commit srv (exec_reserve srv now fid newSeats orderID uid t1) = (None, db')"
      using U False lq F V re by simp
    then have D: "db' = working (exec_reserve srv now fid newSeats orderID uid t1)"
      by (simp add: return_Commit_def Commit_def split: if_splits)
    from scan_rows_found_subset[OF F] verify_exist_None[OF V]
    have sub: "set newSeats \<subseteq> seat_number ` set rows" by blast
    have ex: "\<exists>r \<in> set (seats db). sql_eq srv (flight_id r) fid \<and> seat_number r = s"
      if "s \<in> set newSeats" for s
    proof -
      from sub that obtain r' where r': "r' \<in> set rows" "seat_number r' = s" by auto
      then obtain r where r: "r \<in> set (seats db)" "flight_id r = flight_id r'"
          "seat_number r = seat_number r'" "sql_eq srv (flight_id r') fid"
        unfolding rows_def lock_seats_def w by (auto split: if_splits)
      from r(2,4) have "sql_eq srv (flight_id r) fid" by simp
      moreover from r(3) r'(2) have "seat_number r = s" by simp
      ultimately show ?thesis using r(1) by blast
    qed
    have "db' = db\<lparr>seats :=
                   map (\<lambda>r. if sql_eq srv (flight_id r) (order_flight_id ord) \<and> sql_in srv (seat_number r) newSeats
                             then reserve_row now orderID (order_user_id ord) r
                             else if sql_eq_nullable srv (reserved_by r) orderID \<and> sql_in srv (seat_number r) oldSeats
                             then release_row r else r) (seats db)\<rparr>"
      unfolding D
      by (simp add: exec_reserve_def w reserve_release_row fid_def uid_def cong: if_cong)
    with ord ex show ?thesis by (auto simp: fid_def)
  qed
qed

lemmas example_defs = example_db_def seat_A1_def seat_A2_def seat_B1_def seat_N1_def
  order_O1_def order_O2_def order_O9_def

lemmas store_defs = Begin_def Rollback_def Commit_def lock_seats_def exec_reserve_def
  exec_release_old_def row_passes_def time_Since_def Time_Sub_def maxDuration_def minDuration_def
  Minute_def Second_def select_order_def return_Commit_def reserve_row_def release_row_def

text \<open>The example collation on the strings of the example tables.\<close>

lemma server_ok_simps [simp]:
  "fails server_ok step = False"
  "weight server_ok = ascii_ci"
  by (simp_all add: server_ok_def)

lemmas collation_defs = sql_eq_def sql_in_def sql_eq_nullable_def ascii_ci_def to_upper_def


section \<open>Claims about the seat store\<close>

text \<open>
  Claim C1, as the store has it. After a successful \<^verbatim>\<open>UpdateSeats(orderID, oldSeats, newSeats)\<close>
  the seat numbers of the rows whose \<open>reserved_by\<close> is the order are exactly \<open>newSeats\<close>,
  provided \<open>oldSeats\<close> names every seat the order held before the call: the release step
  frees the order's rows listed in \<open>oldSeats\<close>, not every row the order owns. The rows of
  the order are those the server selects with \<^verbatim>\<open>reserved_by = ?\<close>, and also those whose
  \<open>reserved_by\<close> is the very string. The seat table is taken to satisfy its key
  \<^verbatim>\<open>UNIQUE KEY unique_flight_seat (flight_id, seat_number)\<close>: rows that the collation does
  not tell apart by flight and seat number carry the same seat number.
\<close>

theorem UpdateSeats_owned_seats:
  assumes "UpdateSeats srv now db orderID oldSeats newSeats = (None, db')"
    and "\<forall>r \<in> set (seats db). sql_eq_nullable srv (reserved_by r) orderID \<longrightarrow>
           sql_in srv (seat_number r) oldSeats"
    and "\<forall>r1 \<in> set (seats db). \<forall>r2 \<in> set (seats db).
           sql_eq srv (flight_id r1) (flight_id r2) \<and> sql_eq srv (seat_number r1) (seat_number r2)
             \<longrightarrow> seat_number r1 = seat_number r2"
  shows "seat_number ` {r \<in> set (seats db'). sql_eq_nullable srv (reserved_by r) orderID} =
           set newSeats \<and>
         seat_number ` {r \<in> set (seats db'). reserved_by r = Some orderID} = set newSeats"
proof -
  from UpdateSeats_success[OF assms(1)] obtain ord where
    all: "find (\<lambda>ord. sql_eq srv (order_id ord) orderID) (orders db) = Some ord \<and>
          db' = db\<lparr>seats :=
            map (\<lambda>r. if sql_eq srv (flight_id r) (order_flight_id ord) \<and>
                         sql_in srv (seat_number r) newSeats
                      then reserve_row now orderID (order_user_id ord) r
                      else if sql_eq_nullable srv (reserved_by r) orderID \<and>
                              sql_in srv (seat_number r) oldSeats
                      then release_row r else r) (seats db)\<rparr> \<and>
          (\<forall>s \<in> set newSeats. \<exists>r \<in> set (seats db).
               sql_eq srv (flight_id r) (order_flight_id ord) \<and> seat_number r = s)" ..
  note committed = all[THEN conjunct2, THEN conjunct1]
  note ex = all[THEN conjunct2, THEN conjunct2]
  define step where
    "step = (\<lambda>r. if sql_eq srv (flight_id r) (order_flight_id ord) \<and>
                     sql_in srv (seat_number r) newSeats
                  then reserve_row now orderID (order_user_id ord) r
                  else if sql_eq_nullable srv (reserved_by r) orderID \<and>
                          sql_in srv (seat_number r) oldSeats
                  then release_row r else r)"
  have db': "seats db' = map step (seats db)"
    unfolding step_def by (subst committed) simp
  have owned_requested: "seat_number r' \<in> set newSeats"
    if r': "r' \<in> set (seats db')" and mine: "sql_eq_nullable srv (reserved_by r') orderID" for r'
  proof -
    from r' obtain r where r: "r \<in> set (seats db)" and rr: "r' = step r"
      unfolding db' by auto
    show ?thesis
    proof (cases "sql_eq srv (flight_id r) (order_flight_id ord) \<and>
                  sql_in srv (seat_number r) newSeats")
      case True
      then obtain s where s: "s \<in> set newSeats" "sql_eq srv (seat_number r) s"
        by (auto simp: sql_in_iff)
      from ex s(1) obtain r2 where r2: "r2 \<in> set (seats db)"
          "sql_eq srv (flight_id r2) (order_flight_id ord)" "seat_number r2 = s"
        by blast
      from True r2(2) have "sql_eq srv (flight_id r) (flight_id r2)"
        by (simp add: sql_eq_def)
      with assms(3) r r2(1) s(2) r2(3) have "seat_number r = seat_number r2"
        by blast
      moreover from True rr have "seat_number r' = seat_number r"
        by (auto simp: step_def reserve_row_def)
      ultimately show ?thesis using r2(3) s(1) by simp
    next
      case False
      show ?thesis
      proof (cases "sql_eq_nullable srv (reserved_by r) orderID \<and>
                    sql_in srv (seat_number r) oldSeats")
        case True
        with False rr have "reserved_by r' = None"
          by (auto simp: step_def release_row_def)
        with mine show ?thesis by (simp add: sql_eq_nullable_def)
      next
        case unchanged: False
        with False rr have "r' = r" by (auto simp: step_def)
        with mine assms(2) r unchanged show ?thesis by blast
      qed
    qed
  qed
  have requested_owned: "\<exists>r' \<in> set (seats db'). reserved_by r' = Some orderID \<and> seat_number r' = s"
    if s: "s \<in> set newSeats" for s
  proof -
    from ex s obtain r where r: "r \<in> set (seats db)"
        "sql_eq srv (flight_id r) (order_flight_id ord)" "seat_number r = s"
      by blast
    from s r(3) have "sql_in srv (seat_number r) newSeats"
      by (simp add: sql_in_member)
    with r(2) have "step r = reserve_row now orderID (order_user_id ord) r"
      by (simp add: step_def)
    with r(1) have "reserve_row now orderID (order_user_id ord) r \<in> set (seats db')"
      unfolding db' by force
    moreover have "reserved_by (reserve_row now orderID (order_user_id ord) r) = Some orderID"
      "seat_number (reserve_row now orderID (order_user_id ord) r) = s"
      using r(3) by (simp_all add: reserve_row_def)
    ultimately show ?thesis by blast
  qed
  have exact_mine: "sql_eq_nullable srv (reserved_by r') orderID"
    if "reserved_by r' = Some orderID" for r'
    using that by (simp add: sql_eq_nullable_def)
  have "seat_number ` {r \<in> set (seats db'). sql_eq_nullable srv (reserved_by r) orderID} =
          set newSeats"
  proof (intro equalityI subsetI)
    fix s assume "s \<in> seat_number ` {r \<in> set (seats db').
                        sql_eq_nullable srv (reserved_by r) orderID}"
    with owned_requested show "s \<in> set newSeats" by auto
  next
    fix s assume "s \<in> set newSeats"
    from requested_owned[OF this] obtain r' where
      "r' \<in> set (seats db')" "reserved_by r' = Some orderID" "seat_number r' = s" by blast
    with exact_mine
    show "s \<in> seat_number ` {r \<in> set (seats db'). sql_eq_nullable srv (reserved_by r) orderID}"
      by force
  qed
  moreover have "seat_number ` {r \<in> set (seats db'). reserved_by r = Some orderID} = set newSeats"
  proof (intro equalityI subsetI)
    fix s assume "s \<in> seat_number ` {r \<in> set (seats db'). reserved_by r = Some orderID}"
    with owned_requested exact_mine show "s \<in> set newSeats" by auto
  next
    fix s assume "s \<in> set newSeats"
    from requested_owned[OF this]
    show "s \<in> seat_number ` {r \<in> set (seats db'). reserved_by r = Some orderID}"
      by force
  qed
  ultimately show ?thesis ..
qed

theorem UpdateSeats_owned_seats_witness:
  "seat_number ` {r \<in> set (seats (snd (UpdateSeats server_ok 100 example_db ''O1''
                                          [''A1'', ''N1''] [''B1'']))).
                   sql_eq_nullable server_ok (reserved_by r) ''O1''} = set [''B1''] \<and>
   seat_number ` {r \<in> set (seats (snd (UpdateSeats server_ok 100 example_db ''O1''
                                          [''A1'', ''N1''] [''B1'']))).
                   reserved_by r = Some ''O1''} = set [''B1'']"
proof -
  have run: "UpdateSeats server_ok 100 example_db ''O1'' [''A1'', ''N1''] [''B1''] =
     (None, snd (UpdateSeats server_ok 100 example_db ''O1'' [''A1'', ''N1''] [''B1'']))"
    by (simp add: UpdateSeats_def example_defs store_defs collation_defs Let_def)
  have held: "\<forall>r \<in> set (seats example_db). sql_eq_nullable server_ok (reserved_by r) ''O1'' \<longrightarrow>
                sql_in server_ok (seat_number r) [''A1'', ''N1'']"
    by (simp add: example_defs collation_defs)
  have unique: "\<forall>r1 \<in> set (seats example_db). \<forall>r2 \<in> set (seats example_db).
           sql_eq server_ok (flight_id r1) (flight_id r2) \<and>
           sql_eq server_ok (seat_number r1) (seat_number r2)
             \<longrightarrow> seat_number r1 = seat_number r2"
    by (simp add: example_defs collation_defs)
  from UpdateSeats_owned_seats[OF run held unique] show ?thesis .
qed

text \<open>
  Claim C1 as stated fails: order O1 holds A1 and N1; its update from A1 to B1 succeeds,
  and O1 then holds B1 and still N1, which is not among the new seats.
\<close>

theorem UpdateSeats_straggler_counterexample:
  "fst (UpdateSeats server_ok 100 example_db ''O1'' [''A1''] [''B1'']) = None \<and>
   GetOrderSeats server_ok (snd (UpdateSeats server_ok 100 example_db ''O1'' [''A1''] [''B1'']))
       ''O1'' = Inr [''B1'', ''N1'']"
  by (simp add: UpdateSeats_def GetOrderSeats_def example_defs store_defs collation_defs Let_def)

text \<open>
  Claim C5. Whatever makes \<^verbatim>\<open>UpdateSeats\<close> return an error (a driver failure at any step, a
  missing order row, a missing seat, a seat that is not available), the database after the
  call is the database before it. A call that returns no error has found the order and
  committed the whole swap. Every row of the order's flight that the statement
  \<^verbatim>\<open>seat_number IN (newSeats)\<close> selects is \<open>RESERVED\<close> for the order, with the order's user and
  the time of the call; every other row of the order that \<^verbatim>\<open>seat_number IN (oldSeats)\<close>
  selects is \<open>AVAILABLE\<close> with its three hold columns NULL; no other row and no order has
  changed. And each of the new seats is then a row held by the order.
\<close>

theorem UpdateSeats_all_or_nothing:
  assumes "UpdateSeats srv now db orderID oldSeats newSeats = (result, db')"
  shows "(result \<noteq> None \<longrightarrow> db' = db) \<and>
         (result = None \<longrightarrow>
            (\<exists>ord. find (\<lambda>ord. sql_eq srv (order_id ord) orderID) (orders db) = Some ord \<and>
               db' = db\<lparr>seats :=
                   map (\<lambda>r. if sql_eq srv (flight_id r) (order_flight_id ord) \<and>
                                sql_in srv (seat_number r) newSeats
                             then r\<lparr>status := RESERVED, reserved_by := Some orderID,
                                    user_id := Some (order_user_id ord),
                                    reserved_at := Some now\<rparr>
                             else if sql_eq_nullable srv (reserved_by r) orderID \<and>
                                     sql_in srv (seat_number r) oldSeats
                             then r\<lparr>status := AVAILABLE, reserved_by := None, user_id := None,
                                    reserved_at := None\<rparr>
                             else r) (seats db)\<rparr> \<and>
               (\<forall>s \<in> set newSeats. \<exists>r \<in> set (seats db').
                   seat_number r = s \<and> sql_eq srv (flight_id r) (order_flight_id ord) \<and>
                   status r = RESERVED \<and> reserved_by r = Some orderID \<and>
                   user_id r = Some (order_user_id ord) \<and> reserved_at r = Some now)))"
proof (intro conjI impI)
  assume "result \<noteq> None"
  with assms UpdateSeats_rollback[of srv now db orderID oldSeats newSeats]
  show "db' = db" by simp
next
  assume "result = None"
  with assms have "UpdateSeats srv now db orderID oldSeats newSeats = (None, db')" by simp
  from UpdateSeats_success[OF this] obtain ord where
    all: "find (\<lambda>ord. sql_eq srv (order_id ord) orderID) (orders db) = Some ord \<and>
          db' = db\<lparr>seats :=
            map (\<lambda>r. if sql_eq srv (flight_id r) (order_flight_id ord) \<and>
                         sql_in srv (seat_number r) newSeats
                      then reserve_row now orderID (order_user_id ord) r
                      else if sql_eq_nullable srv (reserved_by r) orderID \<and>
                              sql_in srv (seat_number r) oldSeats
                      then release_row r else r) (seats db)\<rparr> \<and>
          (\<forall>s \<in> set newSeats. \<exists>r \<in> set (seats db).
               sql_eq srv (flight_id r) (order_flight_id ord) \<and> seat_number r = s)" ..
  note found = all[THEN conjunct1]
  note committed = all[THEN conjunct2, THEN conjunct1]
  note ex = all[THEN conjunct2, THEN conjunct2]
  define taken where
    "taken = (\<lambda>r::seat_row. r\<lparr>status := RESERVED, reserved_by := Some orderID,
                    user_id := Some (order_user_id ord), reserved_at := Some now\<rparr>)"
  define step where
    "step = (\<lambda>r::seat_row. if sql_eq srv (flight_id r) (order_flight_id ord) \<and>
                     sql_in srv (seat_number r) newSeats
                  then taken r
                  else if sql_eq_nullable srv (reserved_by r) orderID \<and>
                          sql_in srv (seat_number r) oldSeats
                  then r\<lparr>status := AVAILABLE, reserved_by := None, user_id := None,
                         reserved_at := None\<rparr>
                  else r)"
  have table: "db' = db\<lparr>seats := map step (seats db)\<rparr>"
    by (subst committed) (simp add: step_def taken_def reserve_row_def release_row_def)
  have acquired: "\<exists>r' \<in> set (seats db').
                   seat_number r' = s \<and> sql_eq srv (flight_id r') (order_flight_id ord) \<and>
                   status r' = RESERVED \<and> reserved_by r' = Some orderID \<and>
                   user_id r' = Some (order_user_id ord) \<and> reserved_at r' = Some now"
    if s: "s \<in> set newSeats" for s
  proof -
    from ex s obtain r where r: "r \<in> set (seats db)"
        "sql_eq srv (flight_id r) (order_flight_id ord)" "seat_number r = s"
      by blast
    from s r(3) have "sql_in srv (seat_number r) newSeats"
      by (simp add: sql_in_member)
    with r(2) have "step r = taken r"
      by (simp add: step_def)
    with r(1) have "taken r \<in> set (seats db')"
      by (subst table) force
    moreover have "seat_number (taken r) = s \<and>
        sql_eq srv (flight_id (taken r)) (order_flight_id ord) \<and>
        status (taken r) = RESERVED \<and> reserved_by (taken r) = Some orderID \<and>
        user_id (taken r) = Some (order_user_id ord) \<and> reserved_at (taken r) = Some now"
      using r(2,3) by (simp add: taken_def)
    ultimately show ?thesis by blast
  qed
  from found table acquired
  show "\<exists>ord. find (\<lambda>ord. sql_eq srv (order_id ord) orderID) (orders db) = Some ord \<and>
               db' = db\<lparr>seats :=
                   map (\<lambda>r. if sql_eq srv (flight_id r) (order_flight_id ord) \<and>
                                sql_in srv (seat_number r) newSeats
                             then r\<lparr>status := RESERVED, reserved_by := Some orderID,
                                    user_id := Some (order_user_id ord),
                                    reserved_at := Some now\<rparr>
                             else if sql_eq_nullable srv (reserved_by r) orderID \<and>
                                     sql_in srv (seat_number r) oldSeats
                             then r\<lparr>status := AVAILABLE, reserved_by := None, user_id := None,
                                    reserved_at := None\<rparr>
                             else r) (seats db)\<rparr> \<and>
               (\<forall>s \<in> set newSeats. \<exists>r \<in> set (seats db').
                   seat_number r = s \<and> sql_eq srv (flight_id r) (order_flight_id ord) \<and>
                   status r = RESERVED \<and> reserved_by r = Some orderID \<and>
                   user_id r = Some (order_user_id ord) \<and> reserved_at r = Some now)"
    unfolding step_def taken_def by blast
qed

theorem UpdateSeats_all_or_nothing_witness:
  "snd (UpdateSeats server_ok 100 example_db ''O1'' [''A1''] [''B1'', ''A2'']) = example_db \<and>
   snd (UpdateSeats server_ok 100 example_db ''O1'' [''a1''] [''B1'']) =
     \<lparr>seats =
        [\<lparr>seat_id = ''s-a1'', flight_id = ''FL123'', seat_number = ''A1'', status = AVAILABLE,
          reserved_by = None, user_id = None, reserved_at = None\<rparr>,
         \<lparr>seat_id = ''s-a2'', flight_id = ''FL123'', seat_number = ''A2'', status = BOOKED,
          reserved_by = Some ''O9'', user_id = Some ''carol'', reserved_at = Some 0\<rparr>,
         \<lparr>seat_id = ''s-b1'', flight_id = ''FL123'', seat_number = ''B1'', status = RESERVED,
          reserved_by = Some ''O1'', user_id = Some ''alice'', reserved_at = Some 100\<rparr>,
         \<lparr>seat_id = ''s-n1'', flight_id = ''FL123'', seat_number = ''N1'', status = RESERVED,
          reserved_by = Some ''O1'', user_id = Some ''alice'', reserved_at = None\<rparr>],
      orders = [order_O1, order_O2, order_O9]\<rparr>"
proof -
  have failing: "UpdateSeats server_ok 100 example_db ''O1'' [''A1''] [''B1'', ''A2''] =
      (Some (update_not_available ''A2''),
       snd (UpdateSeats server_ok 100 example_db ''O1'' [''A1''] [''B1'', ''A2'']))"
    by (simp add: UpdateSeats_def example_defs store_defs collation_defs Let_def)
  have succeeding: "UpdateSeats server_ok 100 example_db ''O1'' [''a1''] [''B1''] =
      (None, snd (UpdateSeats server_ok 100 example_db ''O1'' [''a1''] [''B1'']))"
    by (simp add: UpdateSeats_def example_defs store_defs collation_defs Let_def)
  have order: "find (\<lambda>ord. sql_eq server_ok (order_id ord) ''O1'') (orders example_db) =
                 Some order_O1"
    by (simp add: example_defs collation_defs)
  from UpdateSeats_all_or_nothing[OF failing]
  have unchanged:
    "snd (UpdateSeats server_ok 100 example_db ''O1'' [''A1''] [''B1'', ''A2'']) = example_db"
    by simp
  from UpdateSeats_all_or_nothing[OF succeeding] order
  have swapped: "snd (UpdateSeats server_ok 100 example_db ''O1'' [''a1''] [''B1'']) =
     example_db\<lparr>seats :=
                   map (\<lambda>r. if sql_eq server_ok (flight_id r) (order_flight_id order_O1) \<and>
                                sql_in server_ok (seat_number r) [''B1'']
                             then r\<lparr>status := RESERVED, reserved_by := Some ''O1'',
                                    user_id := Some (order_user_id order_O1),
                                    reserved_at := Some 100\<rparr>
                             else if sql_eq_nullable server_ok (reserved_by r) ''O1'' \<and>
                                     sql_in server_ok (seat_number r) [''a1'']
                             then r\<lparr>status := AVAILABLE, reserved_by := None, user_id := None,
                                    reserved_at := None\<rparr>
                             else r) (seats example_db)\<rparr>"
    by simp
  have "snd (UpdateSeats server_ok 100 example_db ''O1'' [''a1''] [''B1'']) =
     \<lparr>seats =
        [\<lparr>seat_id = ''s-a1'', flight_id = ''FL123'', seat_number = ''A1'', status = AVAILABLE,
          reserved_by = None, user_id = None, reserved_at = None\<rparr>,
         \<lparr>seat_id = ''s-a2'', flight_id = ''FL123'', seat_number = ''A2'', status = BOOKED,
          reserved_by = Some ''O9'', user_id = Some ''carol'', reserved_at = Some 0\<rparr>,
         \<lparr>seat_id = ''s-b1'', flight_id = ''FL123'', seat_number = ''B1'', status = RESERVED,
          reserved_by = Some ''O1'', user_id = Some ''alice'', reserved_at = Some 100\<rparr>,
         \<lparr>seat_id = ''s-n1'', flight_id = ''FL123'', seat_number = ''N1'', status = RESERVED,
          reserved_by = Some ''O1'', user_id = Some ''alice'', reserved_at = None\<rparr>],
      orders = [order_O1, order_O2, order_O9]\<rparr>"
    unfolding swapped by (simp add: example_defs collation_defs)
  with unchanged show ?thesis by simp
qed

lemma lock_seats_Begin:
  "lock_seats srv (Begin db) flightID seatNumbers =
     filter (\<lambda>r. sql_eq srv (flight_id r) flightID \<and> sql_in srv (seat_number r) seatNumbers)
       (seats db)"
  by (simp add: lock_seats_def Begin_def)

text \<open>
  Claim C7, as the store has it. Take a \<^verbatim>\<open>ReserveSeats\<close> call (the driver not failing before
  the checks) in which a requested seat number \<open>s\<close> is not the seat number of any row of the
  flight. The rows that the query locks are tested while they are scanned, before the
  existence loop runs: if a locked row does not pass the test, the call fails with
  \<open>SeatNotAvailable\<close> naming the first such row; only if every locked row passes does it
  fail with \<open>SeatNotExist\<close>, naming the first requested seat that is not the seat number of
  a row of the flight. Either way the database is unchanged. The query selects its rows
  under the collation of the server, the existence loop compares the strings as they are.
\<close>

theorem ReserveSeats_check_order:
  assumes "\<not> fails srv BeginTx" "\<not> fails srv LockQuery" "\<not> fails srv ScanRow"
    and "s \<in> set seatNumbers"
    and "s \<notin> set (map seat_number (filter (\<lambda>r. sql_eq srv (flight_id r) flightID) (seats db)))"
  shows "case find (\<lambda>r. \<not> row_passes now r)
                (filter (\<lambda>r. sql_eq srv (flight_id r) flightID \<and>
                              sql_in srv (seat_number r) seatNumbers) (seats db)) of
           Some r \<Rightarrow>
             ReserveSeats srv now db flightID seatNumbers orderID userID =
               (Some (SeatNotAvailable (seat_number r)), db)
         | None \<Rightarrow>
             (\<exists>s'. find (\<lambda>s'. s' \<notin> set (map seat_number
                                (filter (\<lambda>r. sql_eq srv (flight_id r) flightID) (seats db))))
                       seatNumbers = Some s' \<and>
                   ReserveSeats srv now db flightID seatNumbers orderID userID =
                     (Some (SeatNotExist s'), db))"
proof -
  from assms(4) have ne: "seatNumbers \<noteq> []" by auto
  have found: "(s' \<notin> seat_number ` set (lock_seats srv (Begin db) flightID seatNumbers)) =
               (s' \<notin> set (map seat_number
                   (filter (\<lambda>r. sql_eq srv (flight_id r) flightID) (seats db))))"
    if "s' \<in> set seatNumbers" for s'
    using that by (auto simp: lock_seats_Begin sql_in_member)
  have same: "find (\<lambda>s'. s' \<notin> seat_number ` set (lock_seats srv (Begin db) flightID seatNumbers))
                seatNumbers
            = find (\<lambda>s'. s' \<notin> set (map seat_number
                   (filter (\<lambda>r. sql_eq srv (flight_id r) flightID) (seats db)))) seatNumbers"
    by (rule find_cong) (simp_all add: found)
  from assms(4,5) have "find (\<lambda>s'. s' \<notin> set (map seat_number
                   (filter (\<lambda>r. sql_eq srv (flight_id r) flightID) (seats db))))
                       seatNumbers \<noteq> None"
    by (auto simp: find_None_iff)
  then obtain s' where s': "find (\<lambda>s'. s' \<notin> set (map seat_number
                   (filter (\<lambda>r. sql_eq srv (flight_id r) flightID) (seats db))))
                       seatNumbers = Some s'" by auto
  note R = ReserveSeats_result[OF assms(1-3) ne, where now = now and db = db
      and flightID = flightID and orderID = orderID and userID = userID, unfolded same s']
  show ?thesis
    unfolding R lock_seats_Begin using s'
    by (simp split: option.split)
qed

theorem ReserveSeats_check_order_witness:
  "ReserveSeats server_ok 100 example_db ''FL123'' [''B1'', ''Z9''] ''O2'' ''bob'' =
     (Some (SeatNotExist ''Z9''), example_db) \<and>
   ReserveSeats server_ok 100 example_db ''FL123'' [''a2''] ''O2'' ''bob'' =
     (Some (SeatNotAvailable ''A2''), example_db) \<and>
   ReserveSeats server_ok 100 example_db ''FL123'' [''b1''] ''O2'' ''bob'' =
     (Some (SeatNotExist ''b1''), example_db)"
proof -
  have nf: "\<not> fails server_ok BeginTx" "\<not> fails server_ok LockQuery" "\<not> fails server_ok ScanRow"
    by simp_all
  have req: "''Z9'' \<in> set [''B1'', ''Z9'']" "''a2'' \<in> set [''a2'']" "''b1'' \<in> set [''b1'']"
    by simp_all
  have missing:
    "''Z9'' \<notin> set (map seat_number
                  (filter (\<lambda>r. sql_eq server_ok (flight_id r) ''FL123'') (seats example_db)))"
    "''a2'' \<notin> set (map seat_number
                  (filter (\<lambda>r. sql_eq server_ok (flight_id r) ''FL123'') (seats example_db)))"
    "''b1'' \<notin> set (map seat_number
                  (filter (\<lambda>r. sql_eq server_ok (flight_id r) ''FL123'') (seats example_db)))"
    by (simp_all add: example_defs)
  from ReserveSeats_check_order[OF nf req(1) missing(1), of 100 "''O2''" "''bob''"]
  have absent: "ReserveSeats server_ok 100 example_db ''FL123'' [''B1'', ''Z9''] ''O2'' ''bob'' =
     (Some (SeatNotExist ''Z9''), example_db)"
    by (simp add: example_defs store_defs collation_defs)
  from ReserveSeats_check_order[OF nf req(2) missing(2), of 100 "''O2''" "''bob''"]
  have booked: "ReserveSeats server_ok 100 example_db ''FL123'' [''a2''] ''O2'' ''bob'' =
     (Some (SeatNotAvailable ''A2''), example_db)"
    by (simp add: example_defs store_defs collation_defs)
  from ReserveSeats_check_order[OF nf req(3) missing(3), of 100 "''O2''" "''bob''"]
  have other_case: "ReserveSeats server_ok 100 example_db ''FL123'' [''b1''] ''O2'' ''bob'' =
     (Some (SeatNotExist ''b1''), example_db)"
    by (simp add: example_defs store_defs collation_defs)
  from absent booked other_case show ?thesis by simp
qed

text \<open>
  Claim C7 as stated fails: Z9 does not exist and A2 is booked; the call asking for both
  fails with \<open>SeatNotAvailable\<close> for A2, not with \<open>SeatNotExist\<close>.
\<close>

theorem ReserveSeats_unavailable_before_missing_counterexample:
  "''Z9'' \<notin> set (map seat_number (seats example_db)) \<and>
   sql_in server_ok ''Z9'' (map seat_number (seats example_db)) = False \<and>
   ReserveSeats server_ok 100 example_db ''FL123'' [''Z9'', ''A2''] ''O2'' ''bob'' =
     (Some (SeatNotAvailable ''A2''), example_db)"
  by (simp add: ReserveSeats_def example_defs store_defs collation_defs Let_def)

lemma row_without_timestamp_fails:
  "status r = RESERVED \<Longrightarrow> reserved_at r = None \<Longrightarrow> \<not> row_passes now r"
  by (simp add: row_passes_def)

lemma find_not_passing:
  assumes "r \<in> set rows" "\<not> row_passes now r"
  shows "\<exists>r'. find (\<lambda>r. \<not> row_passes now r) rows = Some r'"
proof (cases "find (\<lambda>r. \<not> row_passes now r) rows")
  case None
  with assms show ?thesis by (auto simp: find_None_iff)
next
  case (Some r')
  then show ?thesis by simp
qed

text \<open>
  Claim C10, as the store has it. Let a seat row be \<open>RESERVED\<close> with \<open>reserved_at\<close> NULL, and
  let the driver not fail. At every time \<open>now\<close>, a \<^verbatim>\<open>ReserveSeats\<close> call whose query selects
  the row fails with \<open>SeatNotAvailable\<close>; and so does an \<^verbatim>\<open>UpdateSeats\<close> call of an existing
  order whose query for the new seats selects the row, unless the call's own release
  statement frees the row first, which it does when its \<^verbatim>\<open>reserved_by = ?\<close> selects the row
  for the calling order and its \<^verbatim>\<open>seat_number IN (oldSeats)\<close> selects the seat. The
  database is unchanged. So no other order ever takes the row over.
\<close>

theorem reserved_without_timestamp_not_taken:
  assumes "r \<in> set (seats db)" "status r = RESERVED" "reserved_at r = None"
    and "\<not> fails srv BeginTx" "\<not> fails srv LockQuery" "\<not> fails srv ScanRow"
  shows "(sql_eq srv (flight_id r) flightID \<and> sql_in srv (seat_number r) seatNumbers \<longrightarrow>
           (\<exists>s. ReserveSeats srv now db flightID seatNumbers orderID userID =
                  (Some (SeatNotAvailable s), db))) \<and>
         (\<not> fails srv OrderLookup \<and> \<not> fails srv ReleaseExec \<and>
          find (\<lambda>ord. sql_eq srv (order_id ord) orderID) (orders db) = Some ord \<and>
          sql_eq srv (flight_id r) (order_flight_id ord) \<and> sql_in srv (seat_number r) newSeats \<and>
          \<not> (sql_eq_nullable srv (reserved_by r) orderID \<and> sql_in srv (seat_number r) oldSeats)
            \<longrightarrow>
           (\<exists>s. UpdateSeats srv now db orderID oldSeats newSeats =
                  (Some (update_not_available s), db)))"
proof (intro conjI impI)
  assume a: "sql_eq srv (flight_id r) flightID \<and> sql_in srv (seat_number r) seatNumbers"
  then have ne: "seatNumbers \<noteq> []" by auto
  from a assms(1) have "r \<in> set (lock_seats srv (Begin db) flightID seatNumbers)"
    by (simp add: lock_seats_Begin)
  from find_not_passing[OF this row_without_timestamp_fails[OF assms(2,3)]]
  obtain r' where
    "find (\<lambda>r. \<not> row_passes now r) (lock_seats srv (Begin db) flightID seatNumbers) = Some r'"
    by blast
  then have "ReserveSeats srv now db flightID seatNumbers orderID userID =
                  (Some (SeatNotAvailable (seat_number r')), db)"
    by (simp add: ReserveSeats_result[OF assms(4-6) ne])
  then show "\<exists>s. ReserveSeats srv now db flightID seatNumbers orderID userID =
                  (Some (SeatNotAvailable s), db)" by blast
next
  assume a: "\<not> fails srv OrderLookup \<and> \<not> fails srv ReleaseExec \<and>
          find (\<lambda>ord. sql_eq srv (order_id ord) orderID) (orders db) = Some ord \<and>
          sql_eq srv (flight_id r) (order_flight_id ord) \<and> sql_in srv (seat_number r) newSeats \<and>
          \<not> (sql_eq_nullable srv (reserved_by r) orderID \<and> sql_in srv (seat_number r) oldSeats)"
  then have ne: "newSeats \<noteq> []" by auto
  define t1 where
    "t1 = (if oldSeats \<noteq> [] then exec_release_old srv orderID oldSeats (Begin db) else Begin db)"
  have w: "working t1 =
      db\<lparr>seats := map (\<lambda>r. if sql_eq_nullable srv (reserved_by r) orderID \<and>
                               sql_in srv (seat_number r) oldSeats
                            then release_row r else r) (seats db)\<rparr>"
    unfolding t1_def by (rule released_working)
  from a assms(1) have "r \<in> set (seats (working t1))"
    unfolding w by (auto simp: image_iff intro!: bexI[of _ r])
  with a have "r \<in> set (lock_seats srv t1 (order_flight_id ord) newSeats)"
    by (simp add: lock_seats_def)
  from find_not_passing[OF this row_without_timestamp_fails[OF assms(2,3)]]
  obtain r' where r': "find (\<lambda>r. \<not> row_passes now r)
                         (lock_seats srv t1 (order_flight_id ord) newSeats) = Some r'"
    by blast
  have "UpdateSeats srv now db orderID oldSeats newSeats =
          (Some (update_not_available (seat_number r')), db)"
    using a ne assms(4-6) r'
    by (simp add: UpdateSeats_found[where ord = ord] Let_def t1_def[symmetric]
        scan_rows_no_scan_failure)
  then show "\<exists>s. UpdateSeats srv now db orderID oldSeats newSeats =
                  (Some (update_not_available s), db)" by blast
qed

theorem reserved_without_timestamp_not_taken_witness:
  "ReserveSeats server_ok 1000000000000000000 example_db ''FL123'' [''B1'', ''n1''] ''O2'' ''bob'' =
     (Some (SeatNotAvailable ''N1''), example_db) \<and>
   UpdateSeats server_ok 1000000000000000000 example_db ''O2'' [''N1''] [''N1''] =
     (Some (update_not_available ''N1''), example_db)"
proof -
  have row: "seat_N1 \<in> set (seats example_db)" "status seat_N1 = RESERVED"
      "reserved_at seat_N1 = None"
    by (simp_all add: example_defs)
  have nf: "\<not> fails server_ok BeginTx" "\<not> fails server_ok LockQuery" "\<not> fails server_ok ScanRow"
    by simp_all
  have reserve: "sql_eq server_ok (flight_id seat_N1) ''FL123'' \<and>
                 sql_in server_ok (seat_number seat_N1) [''B1'', ''n1'']"
    by (simp add: example_defs collation_defs)
  have update: "\<not> fails server_ok OrderLookup \<and> \<not> fails server_ok ReleaseExec \<and>
          find (\<lambda>ord. sql_eq server_ok (order_id ord) ''O2'') (orders example_db) = Some order_O2 \<and>
          sql_eq server_ok (flight_id seat_N1) (order_flight_id order_O2) \<and>
          sql_in server_ok (seat_number seat_N1) [''N1''] \<and>
          \<not> (sql_eq_nullable server_ok (reserved_by seat_N1) ''O2'' \<and>
             sql_in server_ok (seat_number seat_N1) [''N1''])"
    by (simp add: example_defs collation_defs)
  from reserved_without_timestamp_not_taken[OF row nf, where flightID = "''FL123''"
      and seatNumbers = "[''B1'', ''n1'']" and orderID = "''O2''" and ord = order_O2
      and newSeats = "[''N1'']" and oldSeats = "[''N1'']" and now = 1000000000000000000
      and userID = "''bob''"] reserve update
  have "(\<exists>s. ReserveSeats server_ok 1000000000000000000 example_db ''FL123'' [''B1'', ''n1'']
               ''O2'' ''bob'' = (Some (SeatNotAvailable s), example_db)) \<and>
        (\<exists>s. UpdateSeats server_ok 1000000000000000000 example_db ''O2'' [''N1''] [''N1''] =
                  (Some (update_not_available s), example_db))"
    by blast
  then show ?thesis
    by (simp add: ReserveSeats_def UpdateSeats_def example_defs store_defs collation_defs Let_def)
qed

text \<open>
  Claim C10 as stated fails for the order that holds the row: N1 is \<open>RESERVED\<close> by O1 with no
  \<open>reserved_at\<close>; O1's update from N1 to N1 releases the row and reserves it again, and so
  does its update from n1 to N1, the collation not telling n1 from N1.
\<close>

theorem own_seat_without_timestamp_counterexample:
  "status seat_N1 = RESERVED \<and> reserved_at seat_N1 = None \<and>
   UpdateSeats server_ok 100 example_db ''O1'' [''N1''] [''N1''] =
     (None, example_db\<lparr>seats := [seat_A1, seat_A2, seat_B1,
        \<lparr>seat_id = ''s-n1'', flight_id = ''FL123'', seat_number = ''N1'', status = RESERVED,
          reserved_by = Some ''O1'', user_id = Some ''alice'', reserved_at = Some 100\<rparr>]\<rparr>) \<and>
   UpdateSeats server_ok 100 example_db ''O1'' [''n1''] [''N1''] =
     (None, example_db\<lparr>seats := [seat_A1, seat_A2, seat_B1,
        \<lparr>seat_id = ''s-n1'', flight_id = ''FL123'', seat_number = ''N1'', status = RESERVED,
          reserved_by = Some ''O1'', user_id = Some ''alice'', reserved_at = Some 100\<rparr>]\<rparr>)"
  by (simp add: UpdateSeats_def example_defs store_defs collation_defs Let_def)

text \<open>
  Claim C4 at a hold window of 30 seconds: A1 has been held for 31 seconds, longer than the
  configured \<open>ReservationTimeout\<close>, and the call for another order is rejected with
  \<open>SeatNotAvailable\<close>, because the store compares with 15 minutes whatever the configuration.
\<close>

theorem stale_hold_under_30s_window:
  "ReservationTimeout config_30s < time_Since (31 * Second) 0 \<and>
   ReserveSeats server_ok (31 * Second) example_db ''FL123'' [''A1''] ''O2'' ''bob'' =
     (Some (SeatNotAvailable ''A1''), example_db)"
  by (simp add: ReserveSeats_def config_30s_def example_defs store_defs collation_defs Let_def)

section \<open>Claims about the activity layer\<close>

lemmas workflow_defs = BookingWorkflow_def initial_run_def seats_reserved_def invoke_def
  set_Status_def handle_updateSeats_def handle_submitPayment_def handle_cancelOrder_def
  handle_timerFuture_def release_and_push_def exit_condition_def terminal_def Let_def

text \<open>
  Claim C2 at a booked seat: the store rejects the call with an error that wraps
  \<open>ErrSeatNotAvailable\<close> and names the seat A2, but the activity returns it as an ordinary
  error, which the retry policy of the workflow repeats: the activity runs five times
  before the workflow of order O2 ends in \<open>FAILED\<close>.
\<close>

theorem seat_rejection_is_retried:
  "ReserveSeats server_ok 100 example_db ''FL123'' [''A2''] ''O2'' ''bob'' =
     (Some (SeatNotAvailable ''A2''), example_db) \<and>
   errors_Is (SeatNotAvailable ''A2'') ErrSeatNotAvailable \<and>
   retryable (Errorf_w ''failed to reserve seats'' (SeatNotAvailable ''A2'')) \<and>
   ExecuteActivity booking_RetryPolicy
       (SeatActivities_ReserveSeats server_ok 100 ''FL123'' [''A2''] ''O2'' ''bob'') example_db =
     (Some (Errorf_w ''failed to reserve seats'' (SeatNotAvailable ''A2'')), example_db, 5) \<and>
   Status (state (fst (BookingWorkflow config_default ''run-2'' input_O2 startup_O2 []))) = FAILED"
  by (simp add: ExecuteActivity_def booking_RetryPolicy_def SeatActivities_ReserveSeats_def
      ReserveSeats_def example_defs store_defs collation_defs SeatNotAvailable_def
      eval_nat_numeral workflow_defs startup_O2_def input_O2_def)

text \<open>
  Claim C6 at an order id with no row: the store returns a fresh error with the text
  "order not found", which is not the sentinel \<open>ErrOrderNotFound\<close>; the activity's
  \<^verbatim>\<open>errors.Is\<close> test fails, the error is returned as an ordinary one, and the activity
  runs five times.
\<close>

theorem missing_order_is_retried:
  "UpdateOrderStatus server_ok 100 example_db ''O7'' SEATS_RESERVED =
     (Some (errors_New ''order not found''), example_db) \<and>
   errors_Is (errors_New ''order not found'') ErrOrderNotFound = False \<and>
   ExecuteActivity booking_RetryPolicy
       (OrderActivities_UpdateOrderStatus server_ok 100 ''O7'' SEATS_RESERVED) example_db =
     (Some (Errorf_w ''failed to update order status'' (errors_New ''order not found'')),
      example_db, 5)"
  by (simp add: ExecuteActivity_def booking_RetryPolicy_def OrderActivities_UpdateOrderStatus_def
      UpdateOrderStatus_def rows_affected_def example_defs store_defs collation_defs Let_def
      eval_nat_numeral)

section \<open>Claims about the orchestrator\<close>

lemma event_loop_exited:
  "\<not> exit_condition r \<Longrightarrow> exit_condition (fst (event_loop cfg runID r evs)) \<Longrightarrow>
   event_loop cfg runID r (evs @ later) = event_loop cfg runID r evs"
proof (induction evs arbitrary: r)
  case Nil
  then show ?case by simp
next
  case (Cons ev evs)
  show ?case
  proof (cases "exit_condition (Select cfg runID r ev)")
    case True
    then show ?thesis by (simp add: Let_def)
  next
    case False
    with Cons.prems(2) have "exit_condition (fst (event_loop cfg runID (Select cfg runID r ev) evs))"
      by (simp add: Let_def)
    from Cons.IH[OF False this] False show ?thesis by (simp add: Let_def)
  qed
qed

lemma terminal_exit: "terminal (Status (state r)) \<Longrightarrow> exit_condition r"
  by (auto simp: terminal_def exit_condition_def)

lemma seats_reserved_enters_loop:
  "workflowErr r = None \<Longrightarrow> \<not> exit_condition (seats_reserved cfg input su r)"
  by (simp add: seats_reserved_def exit_condition_def invoke_def Let_def)

text \<open>
  Claim C3. If the status of the order is terminal (\<open>CONFIRMED\<close>, \<open>FAILED\<close>, \<open>EXPIRED\<close> or
  \<open>CANCELLED\<close>) after the events \<open>evs\<close>, then whatever is delivered later changes nothing: the
  workflow has left its loop and returned, so its state, its status with it, and the calls
  it has made stay as they are.
\<close>

theorem terminal_status_absorbs_signals:
  assumes "terminal (Status (state (fst (BookingWorkflow cfg runID input su evs))))"
  shows "BookingWorkflow cfg runID input su (evs @ later) = BookingWorkflow cfg runID input su evs"
proof (cases "query_handler_err su")
  case (Some err)
  then show ?thesis by (simp add: BookingWorkflow_def)
next
  case None
  show ?thesis
  proof (cases "reserve_result su")
    case (Some err)
    with None show ?thesis by (simp add: BookingWorkflow_def Let_def)
  next
    case reserved: None
    define r where "r = seats_reserved cfg input su
      (invoke (Call_ReserveSeats (input_FlightID input) (input_Seats input)
                 (input_OrderID input) (input_UserID input)) (initial_run input su))"
    have W: "BookingWorkflow cfg runID input su evs' = event_loop cfg runID r evs'" for evs'
      using None reserved by (simp add: BookingWorkflow_def Let_def r_def)
    have entry: "\<not> exit_condition r"
      unfolding r_def
      by (rule seats_reserved_enters_loop) (simp add: invoke_def initial_run_def)
    from assms have "exit_condition (fst (event_loop cfg runID r evs))"
      unfolding W by (rule terminal_exit)
    from event_loop_exited[OF entry this] show ?thesis
      unfolding W .
  qed
qed

theorem terminal_status_absorbs_signals_witness:
  "Status (state (fst (BookingWorkflow config_default ''run-1'' input_O1 startup_ok
      ([cancelOrder True None] @ [submitPayment ''12345'' (Inr payment_ok) None,
                                  updateSeats [''B1''] None 5])))) = CANCELLED"
proof -
  have cancelled: "terminal (Status (state (fst (BookingWorkflow config_default ''run-1'' input_O1
      startup_ok [cancelOrder True None]))))"
    by (simp add: workflow_defs startup_ok_def input_O1_def)
  have "Status (state (fst (BookingWorkflow config_default ''run-1'' input_O1 startup_ok
      [cancelOrder True None]))) = CANCELLED"
    by (simp add: workflow_defs startup_ok_def input_O1_def)
  with terminal_status_absorbs_signals[OF cancelled,
      of "[submitPayment ''12345'' (Inr payment_ok) None, updateSeats [''B1''] None 5]"]
  show ?thesis by simp
qed

section \<open>The payment code on its way through facade, workflow and oracle\<close>

lemma ValidatePayment_format:
  "\<not> MatchString_5_digits paymentCode \<Longrightarrow>
   ValidatePayment gateway_fails transactionID paymentCode =
     (\<lparr>Success = False, TransactionID = [],
       ErrorMessage = ''invalid payment code format (must be 5 digits)''\<rparr>, None)"
  by (simp add: ValidatePayment_def)

lemma PaymentValidationWorkflow_format:
  "\<not> MatchString_5_digits paymentCode \<Longrightarrow>
   PaymentValidationWorkflow (ValidatePayment gateway_fails transactionID paymentCode) =
     Inl (Errorf ''payment validation failed: invalid payment code format (must be 5 digits)'')"
  by (simp add: ValidatePayment_def PaymentValidationWorkflow_def)

lemma payment_failure_fails_order:
  "Status (state (handle_submitPayment runID paymentCode (Inl err) releaseErr r)) = FAILED"
  by (simp add: handle_submitPayment_def release_and_push_def set_Status_def invoke_def Let_def
      split: option.split)

lemma five_characters_pass_the_facade:
  "\<not> MatchString_5_digits ''abcde'' \<and>
   SubmitPayment server_ok example_db (\<lambda>s. None) ''O1'' (Inr ''abcde'') =
     (JSON 200 ''payment submitted'', [Signal ''O1'' ''run-1'' SignalSubmitPayment ''abcde''])"
  by (simp add: MatchString_5_digits_def is_digit_def SubmitPayment_def GetOrder_def
      example_defs collation_defs)

section \<open>Rounding in \<^verbatim>\<open>Duration.Seconds\<close>\<close>





lemma ulp64_pos [simp]: "0 < ulp64 x"
  by (simp add: ulp64_def)












section \<open>Durations within the range of \<^verbatim>\<open>int64\<close>\<close>



section \<open>Claims about the request facade\<close>




text \<open>
  Claim C9. For a payment request whose body decodes, the facade answers 400 exactly when
  the length of the payment code is not 5; the answer then is the short message
  "payment code must be 5 digits", and no signal is passed to the workflow client, so the
  order does not advance.
\<close>

theorem SubmitPayment_code_length:
  "(status_code (fst (SubmitPayment srv db SignalWorkflow orderID (Inr paymentCode))) = 400
      \<longleftrightarrow> length paymentCode \<noteq> 5) \<and>
   (length paymentCode \<noteq> 5 \<longrightarrow>
      SubmitPayment srv db SignalWorkflow orderID (Inr paymentCode) =
        (http_Error ''payment code must be 5 digits'' 400, []))"
  by (simp add: SubmitPayment_def status_code_def Let_def split: sum.split option.split)

theorem SubmitPayment_code_length_witness:
  "SubmitPayment server_ok example_db (\<lambda>s. None) ''O1'' (Inr ''1234'') =
     (http_Error ''payment code must be 5 digits'' 400, [])"
proof -
  have "length ''1234'' \<noteq> 5" by simp
  with SubmitPayment_code_length[of server_ok example_db "\<lambda>s. None" "''O1''" "''1234''"]
  show ?thesis by blast
qed

end
